theory Spec2Isabelle
  imports
    Main
    "HOL-Library.AList"
    "HOL-Library.Char_ord"
    "HOL-Library.List_Lexorder"
    "HOL-Library.Product_Lexorder"
    "HOL-Library.Multiset"
begin

section \<open>The model factory of open\_clip: registry, checkpoint loader, model builder\<close>

text \<open>
  The development embeds \<^verbatim>\<open>src/open_clip/factory.py\<close>. Python exceptions are values
  of the type \<open>error\<close>; a function that can raise returns \<open>error + 'a\<close> with \<open>Inl\<close>
  the exception. The collaborators that live outside the file (the JSON parser, the
  file system, \<^verbatim>\<open>torch\<close>, the model class, the pretrained resolver) are inputs of the
  model: a file system value, and a record of functions.
\<close>

text \<open>
  A Python \<^verbatim>\<open>str\<close> is the list of its code points. The text that the caller passes
  as pretrained tag, the paths made from it and the messages of exceptions are such
  lists, of any code points (\<open>ustr\<close>). The names that the registry and the checkpoint
  loader work on (file names, architecture names, field names, parameter names) are
  written as \<open>string\<close>, the code points below 256; \<open>str\<close> reads a \<open>string\<close> as a
  \<open>ustr\<close>.
\<close>

type_synonym ustr = "nat list"

definition str :: "string \<Rightarrow> ustr" where
  "str s = map of_char s"

datatype error =
    JSONDecodeError
  | UnicodeDecodeError
  | TypeError
  | ValueError
  | FileNotFoundError
  | IsADirectoryError
  | StopIteration
  | AttributeError
  | AssertionError
  | RuntimeError ustr
  | ExternalError string

subsection \<open>Strings of code points below 256\<close>

text \<open>
  A \<open>string\<close> is a list of 8-bit characters, read as the Python \<^verbatim>\<open>str\<close> of the code
  points below 256 (Latin-1). In that range \<^verbatim>\<open>\d\<close> of the \<^verbatim>\<open>re\<close> module matches
  the ten ASCII digits only, while \<^verbatim>\<open>str.isdigit\<close> also accepts the superscripts
  two, three and one (178, 179, 185), for which \<^verbatim>\<open>int\<close> raises. \<^verbatim>\<open>str.lower\<close> maps
  \<open>A..Z\<close> and the accented capitals 192..222 (but not the multiplication sign 215)
  to the code point 32 above: \<open>lower\<close> is the \<open>str_lower\<close> of the next subsection
  on these strings (lemma \<open>str_lower_str\<close>). Comparison of \<^verbatim>\<open>str\<close> is lexicographic
  on code points, which is the order of \<open>char list\<close> used here.
\<close>

definition re_digit :: "char \<Rightarrow> bool" where
  "re_digit c = (48 \<le> (of_char c :: nat) \<and> (of_char c :: nat) \<le> 57)"

definition isdigit_char :: "char \<Rightarrow> bool" where
  "isdigit_char c = (re_digit c \<or> (of_char c :: nat) \<in> {178, 179, 185})"

definition isdigit :: "string \<Rightarrow> bool" where
  "isdigit s = (s \<noteq> [] \<and> list_all isdigit_char s)"

definition is_upper :: "char \<Rightarrow> bool" where
  "is_upper c = (let n = (of_char c :: nat) in
     (65 \<le> n \<and> n \<le> 90) \<or> (192 \<le> n \<and> n \<le> 222 \<and> n \<noteq> 215))"

definition lower_char :: "char \<Rightarrow> char" where
  "lower_char c = (if is_upper c then char_of ((of_char c :: nat) + 32) else c)"

definition lower :: "string \<Rightarrow> string" where
  "lower s = map lower_char s"

definition startswith :: "string \<Rightarrow> string \<Rightarrow> bool" where
  "startswith s p = (take (length p) s = p)"

definition endswith :: "string \<Rightarrow> string \<Rightarrow> bool" where
  "endswith s p = (length p \<le> length s \<and> drop (length s - length p) s = p)"

fun substring_of :: "string \<Rightarrow> string \<Rightarrow> bool" where
  "substring_of p [] = (p = [])"
| "substring_of p (c # s) = (startswith (c # s) p \<or> substring_of p s)"

text \<open>
  \<^verbatim>\<open>int(s)\<close> on a string for which \<^verbatim>\<open>isdigit\<close> holds: the decimal value when every
  character is an ASCII digit, \<^verbatim>\<open>ValueError\<close> otherwise. (The limit that recent
  interpreters put on the number of digits, 4300 by default, is not modelled.)
\<close>

definition digit_val :: "char \<Rightarrow> int" where
  "digit_val c = int (of_char c) - 48"

definition py_int :: "string \<Rightarrow> error + int" where
  "py_int s = (if s \<noteq> [] \<and> list_all re_digit s
     then Inr (foldl (\<lambda>n c. 10 * n + digit_val c) 0 s) else Inl ValueError)"

subsection \<open>Lowercasing a string of any code points\<close>

text \<open>
  \<^verbatim>\<open>str.lower\<close> as CPython 3.11 computes it (Unicode 14.0.0). Each code point is
  replaced by its lowercase mapping: capital I with dot above (304) by two code points,
  any other by one, which is the code point itself unless a run of \<open>lower_runs\<close> holds
  it. A run \<open>(s, n, st, d)\<close> stands for the \<open>n\<close> code points \<open>s\<close>, \<open>s + st\<close>, ...,
  each mapped to the code point \<open>d\<close> above it; the runs are in ascending order. Capital
  sigma (931) becomes final sigma (962) when a cased character precedes it and none
  follows, case-ignorable characters being skipped on both sides, and small sigma (963)
  otherwise. \<open>cased_ranges\<close> lists the cased characters that are not case-ignorable:
  only such characters are tested for being cased.
\<close>

definition lower_runs :: "(nat \<times> nat \<times> nat \<times> int) list" where
  "lower_runs =
     [
      (65, 26, 1, 32), (192, 23, 1, 32), (216, 7, 1, 32), (256, 24, 2, 1),
      (306, 3, 2, 1), (313, 8, 2, 1), (330, 23, 2, 1), (376, 1, 1, - 121),
      (377, 3, 2, 1), (385, 1, 1, 210), (386, 2, 2, 1), (390, 1, 1, 206),
      (391, 1, 1, 1), (393, 2, 1, 205), (395, 1, 1, 1), (398, 1, 1, 79),
      (399, 1, 1, 202), (400, 1, 1, 203), (401, 1, 1, 1), (403, 1, 1, 205),
      (404, 1, 1, 207), (406, 1, 1, 211), (407, 1, 1, 209), (408, 1, 1, 1),
      (412, 1, 1, 211), (413, 1, 1, 213), (415, 1, 1, 214), (416, 3, 2, 1),
      (422, 1, 1, 218), (423, 1, 1, 1), (425, 1, 1, 218), (428, 1, 1, 1),
      (430, 1, 1, 218), (431, 1, 1, 1), (433, 2, 1, 217), (435, 2, 2, 1),
      (439, 1, 1, 219), (440, 1, 1, 1), (444, 1, 1, 1), (452, 1, 1, 2),
      (453, 1, 1, 1), (455, 1, 1, 2), (456, 1, 1, 1), (458, 1, 1, 2),
      (459, 9, 2, 1), (478, 9, 2, 1), (497, 1, 1, 2), (498, 2, 2, 1),
      (502, 1, 1, - 97), (503, 1, 1, - 56), (504, 20, 2, 1), (544, 1, 1, - 130),
      (546, 9, 2, 1), (570, 1, 1, 10795), (571, 1, 1, 1), (573, 1, 1, - 163),
      (574, 1, 1, 10792), (577, 1, 1, 1), (579, 1, 1, - 195), (580, 1, 1, 69),
      (581, 1, 1, 71), (582, 5, 2, 1), (880, 2, 2, 1), (886, 1, 1, 1),
      (895, 1, 1, 116), (902, 1, 1, 38), (904, 3, 1, 37), (908, 1, 1, 64),
      (910, 2, 1, 63), (913, 17, 1, 32), (932, 8, 1, 32), (975, 1, 1, 8),
      (984, 12, 2, 1), (1012, 1, 1, - 60), (1015, 1, 1, 1), (1017, 1, 1, - 7),
      (1018, 1, 1, 1), (1021, 3, 1, - 130), (1024, 16, 1, 80), (1040, 32, 1, 32),
      (1120, 17, 2, 1), (1162, 27, 2, 1), (1216, 1, 1, 15), (1217, 7, 2, 1),
      (1232, 48, 2, 1), (1329, 38, 1, 48), (4256, 38, 1, 7264), (4295, 1, 1, 7264),
      (4301, 1, 1, 7264), (5024, 80, 1, 38864), (5104, 6, 1, 8), (7312, 43, 1, - 3008),
      (7357, 3, 1, - 3008), (7680, 75, 2, 1), (7838, 1, 1, - 7615), (7840, 48, 2, 1),
      (7944, 8, 1, - 8), (7960, 6, 1, - 8), (7976, 8, 1, - 8), (7992, 8, 1, - 8),
      (8008, 6, 1, - 8), (8025, 4, 2, - 8), (8040, 8, 1, - 8), (8072, 8, 1, - 8),
      (8088, 8, 1, - 8), (8104, 8, 1, - 8), (8120, 2, 1, - 8), (8122, 2, 1, - 74),
      (8124, 1, 1, - 9), (8136, 4, 1, - 86), (8140, 1, 1, - 9), (8152, 2, 1, - 8),
      (8154, 2, 1, - 100), (8168, 2, 1, - 8), (8170, 2, 1, - 112), (8172, 1, 1, - 7),
      (8184, 2, 1, - 128), (8186, 2, 1, - 126), (8188, 1, 1, - 9), (8486, 1, 1, - 7517),
      (8490, 1, 1, - 8383), (8491, 1, 1, - 8262), (8498, 1, 1, 28), (8544, 16, 1, 16),
      (8579, 1, 1, 1), (9398, 26, 1, 26), (11264, 48, 1, 48), (11360, 1, 1, 1),
      (11362, 1, 1, - 10743), (11363, 1, 1, - 3814), (11364, 1, 1, - 10727), (11367, 3, 2, 1),
      (11373, 1, 1, - 10780), (11374, 1, 1, - 10749), (11375, 1, 1, - 10783), (11376, 1, 1, - 10782),
      (11378, 1, 1, 1), (11381, 1, 1, 1), (11390, 2, 1, - 10815), (11392, 50, 2, 1),
      (11499, 2, 2, 1), (11506, 1, 1, 1), (42560, 23, 2, 1), (42624, 14, 2, 1),
      (42786, 7, 2, 1), (42802, 31, 2, 1), (42873, 2, 2, 1), (42877, 1, 1, - 35332),
      (42878, 5, 2, 1), (42891, 1, 1, 1), (42893, 1, 1, - 42280), (42896, 2, 2, 1),
      (42902, 10, 2, 1), (42922, 1, 1, - 42308), (42923, 1, 1, - 42319), (42924, 1, 1, - 42315),
      (42925, 1, 1, - 42305), (42926, 1, 1, - 42308), (42928, 1, 1, - 42258), (42929, 1, 1, - 42282),
      (42930, 1, 1, - 42261), (42931, 1, 1, 928), (42932, 8, 2, 1), (42948, 1, 1, - 48),
      (42949, 1, 1, - 42307), (42950, 1, 1, - 35384), (42951, 2, 2, 1), (42960, 1, 1, 1),
      (42966, 2, 2, 1), (42997, 1, 1, 1), (65313, 26, 1, 32), (66560, 40, 1, 40),
      (66736, 36, 1, 40), (66928, 11, 1, 39), (66940, 15, 1, 39), (66956, 7, 1, 39),
      (66964, 2, 1, 39), (68736, 51, 1, 64), (71840, 32, 1, 32), (93760, 32, 1, 32),
      (125184, 34, 1, 34)]"

definition case_ignorable_ranges :: "(nat \<times> nat) list" where
  "case_ignorable_ranges =
     [
      (39, 39), (46, 46), (58, 58), (94, 94), (96, 96), (168, 168),
      (173, 173), (175, 175), (180, 180), (183, 184), (688, 879), (884, 885),
      (890, 890), (900, 901), (903, 903), (1155, 1161), (1369, 1369), (1375, 1375),
      (1425, 1469), (1471, 1471), (1473, 1474), (1476, 1477), (1479, 1479), (1524, 1524),
      (1536, 1541), (1552, 1562), (1564, 1564), (1600, 1600), (1611, 1631), (1648, 1648),
      (1750, 1757), (1759, 1768), (1770, 1773), (1807, 1807), (1809, 1809), (1840, 1866),
      (1958, 1968), (2027, 2037), (2042, 2042), (2045, 2045), (2070, 2093), (2137, 2139),
      (2184, 2184), (2192, 2193), (2200, 2207), (2249, 2306), (2362, 2362), (2364, 2364),
      (2369, 2376), (2381, 2381), (2385, 2391), (2402, 2403), (2417, 2417), (2433, 2433),
      (2492, 2492), (2497, 2500), (2509, 2509), (2530, 2531), (2558, 2558), (2561, 2562),
      (2620, 2620), (2625, 2626), (2631, 2632), (2635, 2637), (2641, 2641), (2672, 2673),
      (2677, 2677), (2689, 2690), (2748, 2748), (2753, 2757), (2759, 2760), (2765, 2765),
      (2786, 2787), (2810, 2815), (2817, 2817), (2876, 2876), (2879, 2879), (2881, 2884),
      (2893, 2893), (2901, 2902), (2914, 2915), (2946, 2946), (3008, 3008), (3021, 3021),
      (3072, 3072), (3076, 3076), (3132, 3132), (3134, 3136), (3142, 3144), (3146, 3149),
      (3157, 3158), (3170, 3171), (3201, 3201), (3260, 3260), (3263, 3263), (3270, 3270),
      (3276, 3277), (3298, 3299), (3328, 3329), (3387, 3388), (3393, 3396), (3405, 3405),
      (3426, 3427), (3457, 3457), (3530, 3530), (3538, 3540), (3542, 3542), (3633, 3633),
      (3636, 3642), (3654, 3662), (3761, 3761), (3764, 3772), (3782, 3782), (3784, 3789),
      (3864, 3865), (3893, 3893), (3895, 3895), (3897, 3897), (3953, 3966), (3968, 3972),
      (3974, 3975), (3981, 3991), (3993, 4028), (4038, 4038), (4141, 4144), (4146, 4151),
      (4153, 4154), (4157, 4158), (4184, 4185), (4190, 4192), (4209, 4212), (4226, 4226),
      (4229, 4230), (4237, 4237), (4253, 4253), (4348, 4348), (4957, 4959), (5906, 5908),
      (5938, 5939), (5970, 5971), (6002, 6003), (6068, 6069), (6071, 6077), (6086, 6086),
      (6089, 6099), (6103, 6103), (6109, 6109), (6155, 6159), (6211, 6211), (6277, 6278),
      (6313, 6313), (6432, 6434), (6439, 6440), (6450, 6450), (6457, 6459), (6679, 6680),
      (6683, 6683), (6742, 6742), (6744, 6750), (6752, 6752), (6754, 6754), (6757, 6764),
      (6771, 6780), (6783, 6783), (6823, 6823), (6832, 6862), (6912, 6915), (6964, 6964),
      (6966, 6970), (6972, 6972), (6978, 6978), (7019, 7027), (7040, 7041), (7074, 7077),
      (7080, 7081), (7083, 7085), (7142, 7142), (7144, 7145), (7149, 7149), (7151, 7153),
      (7212, 7219), (7222, 7223), (7288, 7293), (7376, 7378), (7380, 7392), (7394, 7400),
      (7405, 7405), (7412, 7412), (7416, 7417), (7468, 7530), (7544, 7544), (7579, 7679),
      (8125, 8125), (8127, 8129), (8141, 8143), (8157, 8159), (8173, 8175), (8189, 8190),
      (8203, 8207), (8216, 8217), (8228, 8228), (8231, 8231), (8234, 8238), (8288, 8292),
      (8294, 8303), (8305, 8305), (8319, 8319), (8336, 8348), (8400, 8432), (11388, 11389),
      (11503, 11505), (11631, 11631), (11647, 11647), (11744, 11775), (11823, 11823), (12293, 12293),
      (12330, 12333), (12337, 12341), (12347, 12347), (12441, 12446), (12540, 12542), (40981, 40981),
      (42232, 42237), (42508, 42508), (42607, 42610), (42612, 42621), (42623, 42623), (42652, 42655),
      (42736, 42737), (42752, 42785), (42864, 42864), (42888, 42890), (42994, 42996), (43000, 43001),
      (43010, 43010), (43014, 43014), (43019, 43019), (43045, 43046), (43052, 43052), (43204, 43205),
      (43232, 43249), (43263, 43263), (43302, 43309), (43335, 43345), (43392, 43394), (43443, 43443),
      (43446, 43449), (43452, 43453), (43471, 43471), (43493, 43494), (43561, 43566), (43569, 43570),
      (43573, 43574), (43587, 43587), (43596, 43596), (43632, 43632), (43644, 43644), (43696, 43696),
      (43698, 43700), (43703, 43704), (43710, 43711), (43713, 43713), (43741, 43741), (43756, 43757),
      (43763, 43764), (43766, 43766), (43867, 43871), (43881, 43883), (44005, 44005), (44008, 44008),
      (44013, 44013), (64286, 64286), (64434, 64450), (65024, 65039), (65043, 65043), (65056, 65071),
      (65106, 65106), (65109, 65109), (65279, 65279), (65287, 65287), (65294, 65294), (65306, 65306),
      (65342, 65342), (65344, 65344), (65392, 65392), (65438, 65439), (65507, 65507), (65529, 65531),
      (66045, 66045), (66272, 66272), (66422, 66426), (67456, 67461), (67463, 67504), (67506, 67514),
      (68097, 68099), (68101, 68102), (68108, 68111), (68152, 68154), (68159, 68159), (68325, 68326),
      (68900, 68903), (69291, 69292), (69446, 69456), (69506, 69509), (69633, 69633), (69688, 69702),
      (69744, 69744), (69747, 69748), (69759, 69761), (69811, 69814), (69817, 69818), (69821, 69821),
      (69826, 69826), (69837, 69837), (69888, 69890), (69927, 69931), (69933, 69940), (70003, 70003),
      (70016, 70017), (70070, 70078), (70089, 70092), (70095, 70095), (70191, 70193), (70196, 70196),
      (70198, 70199), (70206, 70206), (70367, 70367), (70371, 70378), (70400, 70401), (70459, 70460),
      (70464, 70464), (70502, 70508), (70512, 70516), (70712, 70719), (70722, 70724), (70726, 70726),
      (70750, 70750), (70835, 70840), (70842, 70842), (70847, 70848), (70850, 70851), (71090, 71093),
      (71100, 71101), (71103, 71104), (71132, 71133), (71219, 71226), (71229, 71229), (71231, 71232),
      (71339, 71339), (71341, 71341), (71344, 71349), (71351, 71351), (71453, 71455), (71458, 71461),
      (71463, 71467), (71727, 71735), (71737, 71738), (71995, 71996), (71998, 71998), (72003, 72003),
      (72148, 72151), (72154, 72155), (72160, 72160), (72193, 72202), (72243, 72248), (72251, 72254),
      (72263, 72263), (72273, 72278), (72281, 72283), (72330, 72342), (72344, 72345), (72752, 72758),
      (72760, 72765), (72767, 72767), (72850, 72871), (72874, 72880), (72882, 72883), (72885, 72886),
      (73009, 73014), (73018, 73018), (73020, 73021), (73023, 73029), (73031, 73031), (73104, 73105),
      (73109, 73109), (73111, 73111), (73459, 73460), (78896, 78904), (92912, 92916), (92976, 92982),
      (92992, 92995), (94031, 94031), (94095, 94111), (94176, 94177), (94179, 94180), (110576, 110579),
      (110581, 110587), (110589, 110590), (113821, 113822), (113824, 113827), (118528, 118573), (118576, 118598),
      (119143, 119145), (119155, 119170), (119173, 119179), (119210, 119213), (119362, 119364), (121344, 121398),
      (121403, 121452), (121461, 121461), (121476, 121476), (121499, 121503), (121505, 121519), (122880, 122886),
      (122888, 122904), (122907, 122913), (122915, 122916), (122918, 122922), (123184, 123197), (123566, 123566),
      (123628, 123631), (125136, 125142), (125252, 125259), (127995, 127999), (917505, 917505), (917536, 917631),
      (917760, 917999)]"

definition cased_ranges :: "(nat \<times> nat) list" where
  "cased_ranges =
     [
      (65, 90), (97, 122), (170, 170), (181, 181), (186, 186), (192, 214),
      (216, 246), (248, 442), (444, 447), (452, 659), (661, 687), (880, 883),
      (886, 887), (891, 893), (895, 895), (902, 902), (904, 906), (908, 908),
      (910, 929), (931, 1013), (1015, 1153), (1162, 1327), (1329, 1366), (1376, 1416),
      (4256, 4293), (4295, 4295), (4301, 4301), (4304, 4346), (4349, 4351), (5024, 5109),
      (5112, 5117), (7296, 7304), (7312, 7354), (7357, 7359), (7424, 7467), (7531, 7543),
      (7545, 7578), (7680, 7957), (7960, 7965), (7968, 8005), (8008, 8013), (8016, 8023),
      (8025, 8025), (8027, 8027), (8029, 8029), (8031, 8061), (8064, 8116), (8118, 8124),
      (8126, 8126), (8130, 8132), (8134, 8140), (8144, 8147), (8150, 8155), (8160, 8172),
      (8178, 8180), (8182, 8188), (8450, 8450), (8455, 8455), (8458, 8467), (8469, 8469),
      (8473, 8477), (8484, 8484), (8486, 8486), (8488, 8488), (8490, 8493), (8495, 8500),
      (8505, 8505), (8508, 8511), (8517, 8521), (8526, 8526), (8544, 8575), (8579, 8580),
      (9398, 9449), (11264, 11387), (11390, 11492), (11499, 11502), (11506, 11507), (11520, 11557),
      (11559, 11559), (11565, 11565), (42560, 42605), (42624, 42651), (42786, 42863), (42865, 42887),
      (42891, 42894), (42896, 42954), (42960, 42961), (42963, 42963), (42965, 42969), (42997, 42998),
      (43002, 43002), (43824, 43866), (43872, 43880), (43888, 43967), (64256, 64262), (64275, 64279),
      (65313, 65338), (65345, 65370), (66560, 66639), (66736, 66771), (66776, 66811), (66928, 66938),
      (66940, 66954), (66956, 66962), (66964, 66965), (66967, 66977), (66979, 66993), (66995, 67001),
      (67003, 67004), (68736, 68786), (68800, 68850), (71840, 71903), (93760, 93823), (119808, 119892),
      (119894, 119964), (119966, 119967), (119970, 119970), (119973, 119974), (119977, 119980), (119982, 119993),
      (119995, 119995), (119997, 120003), (120005, 120069), (120071, 120074), (120077, 120084), (120086, 120092),
      (120094, 120121), (120123, 120126), (120128, 120132), (120134, 120134), (120138, 120144), (120146, 120485),
      (120488, 120512), (120514, 120538), (120540, 120570), (120572, 120596), (120598, 120628), (120630, 120654),
      (120656, 120686), (120688, 120712), (120714, 120744), (120746, 120770), (120772, 120779), (122624, 122633),
      (122635, 122654), (125184, 125251), (127280, 127305), (127312, 127337), (127344, 127369)]"

fun delta_of :: "nat \<Rightarrow> (nat \<times> nat \<times> nat \<times> int) list \<Rightarrow> int" where
  "delta_of c [] = 0"
| "delta_of c ((s, n, st, d) # rs) =
     (if c < s then 0
      else if c < s + n * st \<and> (c - s) mod st = 0 then d
      else delta_of c rs)"

fun in_ranges :: "nat \<Rightarrow> (nat \<times> nat) list \<Rightarrow> bool" where
  "in_ranges c [] = False"
| "in_ranges c ((a, b) # rs) =
     (if c < a then False else if c \<le> b then True else in_ranges c rs)"

definition tolower_full :: "nat \<Rightarrow> ustr" where
  "tolower_full c = (if c = 304 then [105, 775] else [nat (int c + delta_of c lower_runs)])"

definition case_ignorable :: "nat \<Rightarrow> bool" where
  "case_ignorable c = in_ranges c case_ignorable_ranges"

definition cased :: "nat \<Rightarrow> bool" where
  "cased c = in_ranges c cased_ranges"

definition final_sigma :: "ustr \<Rightarrow> ustr \<Rightarrow> bool" where
  "final_sigma before_rev after =
     (case dropWhile case_ignorable before_rev of
        [] \<Rightarrow> False
      | c # cs \<Rightarrow>
          cased c \<and>
          (case dropWhile case_ignorable after of [] \<Rightarrow> True | d # ds \<Rightarrow> \<not> cased d))"

text \<open>
  \<open>lower_from before_rev s\<close> lowers \<open>s\<close>, the characters before it in the whole string
  being \<open>before_rev\<close>, nearest first.
\<close>

fun lower_from :: "ustr \<Rightarrow> ustr \<Rightarrow> ustr" where
  "lower_from before_rev [] = []"
| "lower_from before_rev (c # after) =
     (if c = 931 then [if final_sigma before_rev after then 962 else 963]
      else tolower_full c) @ lower_from (c # before_rev) after"

definition str_lower :: "ustr \<Rightarrow> ustr" where
  "str_lower s = lower_from [] s"

subsection \<open>The natural key\<close>

text \<open>
  \<^verbatim>\<open>re.split(r'(\d+)', s)\<close>: the text before the first run of digits, the run, and
  the split of what follows the run; the text alone when there is no digit.
\<close>

function re_split :: "string \<Rightarrow> string list" where
  "re_split s =
     (let t = takeWhile (\<lambda>c. \<not> re_digit c) s;
          r = dropWhile (\<lambda>c. \<not> re_digit c) s
      in if r = [] then [t]
         else t # takeWhile re_digit r # re_split (dropWhile re_digit r))"
  by pat_completeness auto
termination
proof (relation "measure length")
  show "wf (measure length)" by simp
next
  fix s t r :: string
  assume r: "r = dropWhile (\<lambda>c. \<not> re_digit c) s" and ne: "r \<noteq> []"
  from r ne have "\<not> \<not> re_digit (hd r)"
    using hd_dropWhile [of "\<lambda>c. \<not> re_digit c" s] by simp
  with ne have "dropWhile re_digit r = dropWhile re_digit (tl r)"
    by (cases r) simp_all
  then have "length (dropWhile re_digit r) \<le> length (tl r)"
    using length_dropWhile_le [of re_digit "tl r"] by simp
  also have "length (tl r) < length r" using ne by simp
  also have "length r \<le> length s" using r by (simp add: length_dropWhile_le)
  finally show "(dropWhile re_digit r, s) \<in> measure length" by simp
qed

datatype key_elem = KInt int | KStr string

definition key_elem_of :: "string \<Rightarrow> error + key_elem" where
  "key_elem_of s = (if isdigit s then map_sum id KInt (py_int s) else Inr (KStr s))"

fun map_err :: "('a \<Rightarrow> error + 'b) \<Rightarrow> 'a list \<Rightarrow> error + 'b list" where
  "map_err f [] = Inr []"
| "map_err f (x # xs) =
     (case f x of
        Inl e \<Rightarrow> Inl e
      | Inr y \<Rightarrow> (case map_err f xs of Inl e \<Rightarrow> Inl e | Inr ys \<Rightarrow> Inr (y # ys)))"

definition natural_key :: "string \<Rightarrow> error + key_elem list" where
  "natural_key s = map_err key_elem_of (re_split (lower s))"

text \<open>
  Python compares two lists at the first position where they differ, and by length when
  one is a prefix of the other; an \<^verbatim>\<open>int\<close> against a \<^verbatim>\<open>str\<close> under \<^verbatim>\<open><\<close> raises
  \<^verbatim>\<open>TypeError\<close>.
\<close>

fun elem_lt :: "key_elem \<Rightarrow> key_elem \<Rightarrow> error + bool" where
  "elem_lt (KInt a) (KInt b) = Inr (a < b)"
| "elem_lt (KStr a) (KStr b) = Inr (a < b)"
| "elem_lt _ _ = Inl TypeError"

fun key_lt :: "key_elem list \<Rightarrow> key_elem list \<Rightarrow> error + bool" where
  "key_lt [] [] = Inr False"
| "key_lt [] (y # ys) = Inr True"
| "key_lt (x # xs) [] = Inr False"
| "key_lt (x # xs) (y # ys) = (if x = y then key_lt xs ys else elem_lt x y)"

text \<open>
  \<^verbatim>\<open>sorted(xs, key=f)\<close> computes every key first, in order, then sorts stably with
  \<^verbatim>\<open><\<close> on the keys. The stable order is unique when the keys are totally ordered; it is
  computed here by insertion from the right, an element going before the first one whose
  key is not smaller.
\<close>

fun insort_py :: "key_elem list \<times> 'a \<Rightarrow> (key_elem list \<times> 'a) list \<Rightarrow> error + (key_elem list \<times> 'a) list" where
  "insort_py x [] = Inr [x]"
| "insort_py x (y # ys) =
     (case key_lt (fst y) (fst x) of
        Inl e \<Rightarrow> Inl e
      | Inr False \<Rightarrow> Inr (x # y # ys)
      | Inr True \<Rightarrow> map_sum id ((#) y) (insort_py x ys))"

fun sort_py :: "(key_elem list \<times> 'a) list \<Rightarrow> error + (key_elem list \<times> 'a) list" where
  "sort_py [] = Inr []"
| "sort_py (x # xs) = (case sort_py xs of Inl e \<Rightarrow> Inl e | Inr ys \<Rightarrow> insort_py x ys)"

definition sorted_natural :: "('a \<Rightarrow> string) \<Rightarrow> 'a list \<Rightarrow> error + 'a list" where
  "sorted_natural name xs =
     (case map_err (\<lambda>x. map_sum id (\<lambda>k. (k, x)) (natural_key (name x))) xs of
        Inl e \<Rightarrow> Inl e
      | Inr kxs \<Rightarrow> map_sum id (map snd) (sort_py kxs))"

subsection \<open>Dictionaries, documents and the file system\<close>

text \<open>
  A \<^verbatim>\<open>dict\<close> is an association list in insertion order. \<^verbatim>\<open>d[k] = v\<close> is
  \<open>AList.update k v d\<close>: a present key keeps its position and takes the new value, a new
  key goes to the end. A dictionary built from a sequence of items (a comprehension, or
  \<^verbatim>\<open>dict(items)\<close>) assigns them in order to the empty one.
\<close>

definition dict_of_items :: "('k \<times> 'v) list \<Rightarrow> ('k \<times> 'v) list" where
  "dict_of_items items = fold (\<lambda>(k, v) d. AList.update k v d) items []"

text \<open>
  What \<^verbatim>\<open>json.load\<close> returns. A number with a fraction or an exponent is kept as its
  text: nothing below computes with it.
\<close>

datatype json =
    JNull
  | JBool bool
  | JInt int
  | JFloat string
  | JString string
  | JArray "json list"
  | JObject "(string \<times> json) list"

text \<open>
  \<^verbatim>\<open>a in model_cfg\<close> for a string \<open>a\<close>: a key of a \<^verbatim>\<open>dict\<close>, an element of a
  \<^verbatim>\<open>list\<close>, a substring of a \<^verbatim>\<open>str\<close>; a number, a boolean and \<^verbatim>\<open>None\<close> are not
  iterable. \<^verbatim>\<open>all(...)\<close> over the generator stops at the first \<^verbatim>\<open>False\<close>.
\<close>

fun py_in :: "string \<Rightarrow> json \<Rightarrow> error + bool" where
  "py_in a (JObject kvs) = Inr (a \<in> set (map fst kvs))"
| "py_in a (JArray xs) = Inr (JString a \<in> set xs)"
| "py_in a (JString s) = Inr (substring_of a s)"
| "py_in a JNull = Inl TypeError"
| "py_in a (JBool b) = Inl TypeError"
| "py_in a (JInt n) = Inl TypeError"
| "py_in a (JFloat x) = Inl TypeError"

fun all_in :: "string list \<Rightarrow> json \<Rightarrow> error + bool" where
  "all_in [] model_cfg = Inr True"
| "all_in (a # as) model_cfg =
     (case py_in a model_cfg of
        Inl e \<Rightarrow> Inl e
      | Inr False \<Rightarrow> Inr False
      | Inr True \<Rightarrow> all_in as model_cfg)"

definition required_fields :: "string list" where
  "required_fields = [''embed_dim'', ''vision_cfg'', ''text_cfg'']"

text \<open>
  A path is the list of its components. Its name is the last one; suffix and stem split
  the name at its last dot, unless that dot is the first or the last character
  (\<^verbatim>\<open>pathlib\<close>). The file system gives, for a path, nothing, a directory with the names
  of its entries in the order the system lists them, or a file, which holds a document,
  text that \<^verbatim>\<open>json.load\<close> rejects, or bytes that are not text in the encoding that
  \<^verbatim>\<open>open\<close> reads with.
\<close>

type_synonym path = "string list"

datatype content = Document json | NotJson | NotText

datatype node = File content | Dir "string list"

type_synonym fs = "path \<Rightarrow> node option"

definition path_name :: "path \<Rightarrow> string" where
  "path_name p = (if p = [] then [] else last p)"

definition rfind_dot :: "string \<Rightarrow> nat option" where
  "rfind_dot n =
     (if CHR ''.'' \<in> set n
      then Some (length n - 1 - length (takeWhile (\<lambda>c. c \<noteq> CHR ''.'') (rev n)))
      else None)"

definition path_suffix :: "path \<Rightarrow> string" where
  "path_suffix p =
     (let n = path_name p in
      case rfind_dot n of
        Some i \<Rightarrow> if 0 < i \<and> i < length n - 1 then drop i n else []
      | None \<Rightarrow> [])"

definition path_stem :: "path \<Rightarrow> string" where
  "path_stem p =
     (let n = path_name p in
      case rfind_dot n of
        Some i \<Rightarrow> if 0 < i \<and> i < length n - 1 then take i n else n
      | None \<Rightarrow> n)"

definition is_file :: "fs \<Rightarrow> path \<Rightarrow> bool" where
  "is_file fs p = (case fs p of Some (File c) \<Rightarrow> True | _ \<Rightarrow> False)"

definition is_dir :: "fs \<Rightarrow> path \<Rightarrow> bool" where
  "is_dir fs p = (case fs p of Some (Dir ns) \<Rightarrow> True | _ \<Rightarrow> False)"

definition glob_json :: "fs \<Rightarrow> path \<Rightarrow> path list" where
  "glob_json fs p =
     (case fs p of
        Some (Dir ns) \<Rightarrow> map (\<lambda>n. p @ [n]) (filter (\<lambda>n. endswith n ''.json'') ns)
      | _ \<Rightarrow> [])"

text \<open>\<^verbatim>\<open>with open(cf, 'r') as f: model_cfg = json.load(f)\<close>\<close>

definition load_json :: "fs \<Rightarrow> path \<Rightarrow> error + json" where
  "load_json fs cf =
     (case fs cf of
        None \<Rightarrow> Inl FileNotFoundError
      | Some (Dir ns) \<Rightarrow> Inl IsADirectoryError
      | Some (File NotText) \<Rightarrow> Inl UnicodeDecodeError
      | Some (File NotJson) \<Rightarrow> Inl JSONDecodeError
      | Some (File (Document doc)) \<Rightarrow> Inr doc)"

subsection \<open>The registry: \<^verbatim>\<open>_rescan_model_configs\<close>, \<^verbatim>\<open>list_models\<close>, \<^verbatim>\<open>add_model_config\<close>\<close>

text \<open>
  The two module globals. A function that assigns into \<^verbatim>\<open>_MODEL_CONFIGS\<close> returns
  the registry as it stands when the function ends, also when it ends by an exception:
  the entries assigned before the exception stay.
\<close>

record state =
  MODEL_CONFIG_PATHS :: "path list"
  MODEL_CONFIGS :: "(string \<times> json) list"

fun config_files_of :: "fs \<Rightarrow> path list \<Rightarrow> path list" where
  "config_files_of fs [] = []"
| "config_files_of fs (config_path # ps) =
     (if is_file fs config_path \<and> path_suffix config_path \<in> set [''.json'']
      then [config_path]
      else if is_dir fs config_path then glob_json fs config_path
      else []) @ config_files_of fs ps"

fun scan_files :: "fs \<Rightarrow> path list \<Rightarrow> (string \<times> json) list \<Rightarrow> (string \<times> json) list \<times> error option" where
  "scan_files fs [] cfgs = (cfgs, None)"
| "scan_files fs (cf # cfs) cfgs =
     (case load_json fs cf of
        Inl e \<Rightarrow> (cfgs, Some e)
      | Inr model_cfg \<Rightarrow>
          (case all_in required_fields model_cfg of
             Inl e \<Rightarrow> (cfgs, Some e)
           | Inr ok \<Rightarrow>
               scan_files fs cfs
                 (if ok then AList.update (path_stem cf) model_cfg cfgs else cfgs)))"

text \<open>
  \<open>scan_and_sort\<close> is lines 37 to 43 of \<^verbatim>\<open>_rescan_model_configs\<close>, run on the list
  \<^verbatim>\<open>config_files\<close> that lines 29 to 35 collect.
\<close>

definition scan_and_sort :: "fs \<Rightarrow> path list \<Rightarrow> state \<Rightarrow> state \<times> error option" where
  "scan_and_sort fs config_files st =
     (case scan_files fs config_files (MODEL_CONFIGS st) of
        (cfgs, Some e) \<Rightarrow> (st\<lparr>MODEL_CONFIGS := cfgs\<rparr>, Some e)
      | (cfgs, None) \<Rightarrow>
          (case sorted_natural fst cfgs of
             Inl e \<Rightarrow> (st\<lparr>MODEL_CONFIGS := cfgs\<rparr>, Some e)
           | Inr items \<Rightarrow> (st\<lparr>MODEL_CONFIGS := dict_of_items items\<rparr>, None)))"

definition rescan_model_configs :: "fs \<Rightarrow> state \<Rightarrow> state \<times> error option" where
  "rescan_model_configs fs st = scan_and_sort fs (config_files_of fs (MODEL_CONFIG_PATHS st)) st"

text \<open>
  \<open>pkg\<close> is the directory of \<^verbatim>\<open>factory.py\<close>, so \<open>model_configs_dir pkg\<close> is
  \<^verbatim>\<open>Path(__file__).parent / "model_configs/"\<close>. Importing the module runs one rescan
  from the initial globals.
\<close>

definition model_configs_dir :: "path \<Rightarrow> path" where
  "model_configs_dir pkg = pkg @ [''model_configs'']"

definition initial_state :: "path \<Rightarrow> state" where
  "initial_state pkg = \<lparr>MODEL_CONFIG_PATHS = [model_configs_dir pkg], MODEL_CONFIGS = []\<rparr>"

fun list_files :: "fs \<Rightarrow> path list \<Rightarrow> string list \<Rightarrow> error + string list" where
  "list_files fs [] models = Inr models"
| "list_files fs (cf # cfs) models =
     (case load_json fs cf of
        Inl e \<Rightarrow> Inl e
      | Inr model_cfg \<Rightarrow>
          (case all_in required_fields model_cfg of
             Inl e \<Rightarrow> Inl e
           | Inr ok \<Rightarrow> list_files fs cfs (if ok then models @ [path_stem cf] else models)))"

definition list_models :: "path \<Rightarrow> fs \<Rightarrow> error + string list" where
  "list_models pkg fs =
     (case list_files fs (glob_json fs (model_configs_dir pkg)) [] of
        Inl e \<Rightarrow> Inl e
      | Inr models \<Rightarrow> sorted_natural id models)"

definition add_model_config :: "fs \<Rightarrow> path \<Rightarrow> state \<Rightarrow> state \<times> error option" where
  "add_model_config fs p st =
     rescan_model_configs fs (st\<lparr>MODEL_CONFIG_PATHS := MODEL_CONFIG_PATHS st @ [p]\<rparr>)"

subsection \<open>The checkpoint loader: \<^verbatim>\<open>load_state_dict\<close>\<close>

text \<open>
  What \<^verbatim>\<open>torch.load\<close> returns: a \<^verbatim>\<open>dict\<close> with string keys, or any other object
  (a tensor, a number), which is opaque here and has no \<^verbatim>\<open>items\<close>.
  \<open>state_dict_of\<close> is the body of \<^verbatim>\<open>load_state_dict\<close> after the call of
  \<^verbatim>\<open>torch.load\<close>, which is a parameter.
\<close>

datatype obj = Tensor nat | Dict "(string \<times> obj) list"

definition state_dict_of :: "obj \<Rightarrow> error + obj" where
  "state_dict_of checkpoint =
     (let state_dict =
            (case checkpoint of
               Dict kvs \<Rightarrow>
                 (case map_of kvs ''state_dict'' of Some inner \<Rightarrow> inner | None \<Rightarrow> checkpoint)
             | Tensor t \<Rightarrow> checkpoint)
      in case state_dict of
           Tensor t \<Rightarrow> Inl AttributeError
         | Dict [] \<Rightarrow> Inl StopIteration
         | Dict ((k0, v0) # rest) \<Rightarrow>
             if startswith k0 ''module''
             then Inr (Dict (dict_of_items (map (\<lambda>(k, v). (drop 7 k, v)) ((k0, v0) # rest))))
             else Inr state_dict)"

definition load_state_dict :: "('p \<Rightarrow> error + obj) \<Rightarrow> 'p \<Rightarrow> error + obj" where
  "load_state_dict torch_load_fn checkpoint_path =
     (case torch_load_fn checkpoint_path of
        Inl e \<Rightarrow> Inl e
      | Inr checkpoint \<Rightarrow> state_dict_of checkpoint)"

subsection \<open>The model builder: \<^verbatim>\<open>create_model\<close>\<close>

text \<open>
  The calls that leave the file are recorded, in order, as events; a computation is the
  list of its events with its result or exception. The collaborators are the fields of
  \<open>env\<close>, over any type \<open>'m\<close> of model objects; a call that changes the model in place
  (\<^verbatim>\<open>model.to\<close>, \<^verbatim>\<open>model.load_state_dict\<close>, \<^verbatim>\<open>convert_weights_to_fp16\<close>) returns the
  changed model. Logging is not an event. \<^verbatim>\<open>assert\<close> is taken as enabled (the
  interpreter runs without \<^verbatim>\<open>-O\<close>).
\<close>

record device =
  dev_type :: string
  dev_index :: "nat option"

datatype event =
    LoadOpenaiModel string device bool
  | ModelFloat
  | ConstructCLIP "(string \<times> json) list"
  | GetPretrainedUrl string ustr
  | DownloadPretrained ustr
  | OsPathExists ustr
  | TorchLoad ustr
  | ModelLoadStateDict obj
  | ModelTo device
  | ConvertWeightsToFp16
  | TorchJitScript

type_synonym 'a eff = "event list \<times> (error + 'a)"

definition ret :: "'a \<Rightarrow> 'a eff" where
  "ret x = ([], Inr x)"

definition raise_err :: "error \<Rightarrow> 'a eff" where
  "raise_err e = ([], Inl e)"

definition call :: "event \<Rightarrow> error + 'a \<Rightarrow> 'a eff" where
  "call ev r = ([ev], r)"

definition and_then :: "'a eff \<Rightarrow> ('a \<Rightarrow> 'b eff) \<Rightarrow> 'b eff" where
  "and_then m f =
     (case m of
        (t, Inl e) \<Rightarrow> (t, Inl e)
      | (t, Inr x) \<Rightarrow> (case f x of (t', r) \<Rightarrow> (t @ t', r)))"

record 'm env =
  load_openai_model :: "string \<Rightarrow> device \<Rightarrow> bool \<Rightarrow> error + 'm"
  model_float :: "'m \<Rightarrow> error + 'm"
  CLIP :: "(string \<times> json) list \<Rightarrow> error + 'm"
  get_pretrained_url :: "string \<Rightarrow> ustr \<Rightarrow> ustr"
  download_pretrained :: "ustr \<Rightarrow> error + ustr"
  os_path_exists :: "ustr \<Rightarrow> bool"
  torch_load :: "ustr \<Rightarrow> error + obj"
  model_load_state_dict :: "'m \<Rightarrow> obj \<Rightarrow> error + 'm"
  model_to :: "'m \<Rightarrow> device \<Rightarrow> error + 'm"
  convert_weights_to_fp16 :: "'m \<Rightarrow> error + 'm"
  torch_jit_script :: "'m \<Rightarrow> error + 'm"

text \<open>
  For \<^verbatim>\<open>create_model\<close> the registry is seen with its objects: \<^verbatim>\<open>_MODEL_CONFIGS\<close>
  maps a name to a reference, and the store gives the document each reference holds.
  \<^verbatim>\<open>deepcopy\<close> allocates a new object with the same content; \<^verbatim>\<open>cfg[k] = v\<close> changes
  the object the reference points to, and raises \<^verbatim>\<open>TypeError\<close> on a list or a string.
\<close>

record store_state =
  config_refs :: "(string \<times> nat) list"
  objects :: "nat \<Rightarrow> json"
  next_ref :: nat

definition deepcopy :: "store_state \<Rightarrow> nat \<Rightarrow> store_state \<times> nat" where
  "deepcopy st a =
     (st\<lparr>objects := (objects st)(next_ref st := objects st a), next_ref := Suc (next_ref st)\<rparr>,
      next_ref st)"

definition setitem :: "store_state \<Rightarrow> nat \<Rightarrow> string \<Rightarrow> json \<Rightarrow> store_state \<times> (error + unit)" where
  "setitem st a k v =
     (case objects st a of
        JObject kvs \<Rightarrow> (st\<lparr>objects := (objects st)(a := JObject (AList.update k v kvs))\<rparr>, Inr ())
      | _ \<Rightarrow> (st, Inl TypeError))"

text \<open>\<^verbatim>\<open>CLIP(**model_cfg)\<close>: the argument after \<^verbatim>\<open>**\<close> must be a mapping.\<close>

definition construct :: "'m env \<Rightarrow> json \<Rightarrow> 'm eff" where
  "construct env model_cfg =
     (case model_cfg of
        JObject kvs \<Rightarrow> call (ConstructCLIP kvs) (CLIP env kvs)
      | _ \<Rightarrow> raise_err TypeError)"

text \<open>Lines 89 to 102: the weights of a non-empty pretrained tag.\<close>

definition load_pretrained :: "'m env \<Rightarrow> string \<Rightarrow> ustr \<Rightarrow> 'm \<Rightarrow> 'm eff" where
  "load_pretrained env model_name pretrained model =
     and_then (call (GetPretrainedUrl model_name pretrained)
                 (Inr (get_pretrained_url env model_name pretrained)))
       (\<lambda>url.
     and_then (if url \<noteq> [] then call (DownloadPretrained url) (download_pretrained env url)
               else and_then (call (OsPathExists pretrained) (Inr (os_path_exists env pretrained)))
                      (\<lambda>found. ret (if found then pretrained else [])))
       (\<lambda>checkpoint_path.
     if checkpoint_path \<noteq> [] then
       and_then (call (TorchLoad checkpoint_path)
                   (load_state_dict (torch_load env) checkpoint_path))
         (\<lambda>sd. call (ModelLoadStateDict sd) (model_load_state_dict env model sd))
     else raise_err (RuntimeError (str ''Pretrained weights ('' @ pretrained @
            str '') not found for model '' @ str model_name @ str ''.''))))"

text \<open>Lines 104 to 110: device, precision, scripting.\<close>

definition finish_model :: "'m env \<Rightarrow> string \<Rightarrow> device \<Rightarrow> bool \<Rightarrow> 'm \<Rightarrow> 'm eff" where
  "finish_model env precision dev jit model =
     and_then (call (ModelTo dev) (model_to env model dev))
       (\<lambda>model.
     and_then (if precision = ''fp16''
               then (if dev_type dev \<noteq> ''cpu''
                     then call ConvertWeightsToFp16 (convert_weights_to_fp16 env model)
                     else raise_err AssertionError)
               else ret model)
       (\<lambda>model.
     if jit then call TorchJitScript (torch_jit_script env model) else ret model))"

text \<open>
  \<^verbatim>\<open>create_model\<close>. The message of \<^verbatim>\<open>logging.error\<close> on line 80 is built before the
  \<^verbatim>\<open>raise\<close> of line 81 and calls \<^verbatim>\<open>list_models()\<close>, which reads the file system and
  can raise itself.
\<close>

definition create_model ::
  "'m env \<Rightarrow> path \<Rightarrow> fs \<Rightarrow> store_state \<Rightarrow> string \<Rightarrow> ustr \<Rightarrow> string \<Rightarrow> device \<Rightarrow> bool \<Rightarrow> bool
     \<Rightarrow> store_state \<times> 'm eff" where
  "create_model env pkg fs st model_name pretrained_arg precision dev jit force_quick_gelu =
     (let pretrained = str_lower pretrained_arg in
      if pretrained = str ''openai'' then
        (st,
         and_then (call (LoadOpenaiModel model_name dev jit)
                     (load_openai_model env model_name dev jit))
           (\<lambda>model. if precision = ''amp'' \<or> precision = ''fp32''
                     then call ModelFloat (model_float env model) else ret model))
      else
        (case map_of (config_refs st) model_name of
           None \<Rightarrow>
             (st,
              case list_models pkg fs of
                Inl e \<Rightarrow> raise_err e
              | Inr names \<Rightarrow>
                  raise_err (RuntimeError (str (''Model config for '' @ model_name @ '' not found.''))))
         | Some r \<Rightarrow>
             (let (st1, model_cfg) = deepcopy st r;
                  (st2, assigned) =
                    (if force_quick_gelu
                     then setitem st1 model_cfg ''quick_gelu'' (JBool True)
                     else (st1, Inr ()))
              in (st2,
                  and_then ([], assigned)
                    (\<lambda>u. and_then (construct env (objects st2 model_cfg))
                    (\<lambda>model. and_then (if pretrained \<noteq> []
                                        then load_pretrained env model_name pretrained model
                                        else ret model)
                    (\<lambda>model. finish_model env precision dev jit model)))))))"

subsection \<open>Notions used to state and prove the properties\<close>

text \<open>
  A candidate file is valid when it loads and holds the three required fields; the valid
  entries of a list of candidates are their stems with their documents, in the order of
  the candidates.
\<close>

definition is_valid :: "fs \<Rightarrow> path \<Rightarrow> bool" where
  "is_valid fs cf =
     (case load_json fs cf of
        Inl e \<Rightarrow> False
      | Inr doc \<Rightarrow> all_in required_fields doc = Inr True)"

definition raises :: "fs \<Rightarrow> path \<Rightarrow> bool" where
  "raises fs cf =
     (case load_json fs cf of
        Inl e \<Rightarrow> True
      | Inr doc \<Rightarrow> (case all_in required_fields doc of Inl e \<Rightarrow> True | Inr ok \<Rightarrow> False))"

definition entry_of :: "fs \<Rightarrow> path \<Rightarrow> string \<times> json" where
  "entry_of fs cf = (path_stem cf, case load_json fs cf of Inr doc \<Rightarrow> doc | Inl e \<Rightarrow> JNull)"

definition valid_entries :: "fs \<Rightarrow> path list \<Rightarrow> (string \<times> json) list" where
  "valid_entries fs files = map (entry_of fs) (filter (is_valid fs) files)"

text \<open>
  \<open>natural_le a b\<close>: both names have a natural key and the key of \<open>b\<close> is not smaller
  than the key of \<open>a\<close>, so \<open>a\<close> may stand before \<open>b\<close> in a list sorted by natural key.
\<close>

definition natural_le :: "string \<Rightarrow> string \<Rightarrow> bool" where
  "natural_le a b =
     (case (natural_key a, natural_key b) of
        (Inr ka, Inr kb) \<Rightarrow> key_lt kb ka = Inr False
      | _ \<Rightarrow> False)"

text \<open>
  The keys that \<^verbatim>\<open>_natural_key\<close> returns alternate between text and number, text
  first. On such keys the comparison never raises and agrees with the lexicographic
  order of the encoded elements, a linear order.
\<close>

fun is_str :: "key_elem \<Rightarrow> bool" where
  "is_str (KStr s) = True"
| "is_str (KInt n) = False"

fun shaped :: "bool \<Rightarrow> key_elem list \<Rightarrow> bool" where
  "shaped b [] = True"
| "shaped b (x # xs) = (is_str x = b \<and> shaped (\<not> b) xs)"

fun segs_ok :: "bool \<Rightarrow> string list \<Rightarrow> bool" where
  "segs_ok b [] = True"
| "segs_ok b (s # ss) =
     ((if b then list_all (\<lambda>c. \<not> re_digit c) s else s \<noteq> [] \<and> list_all re_digit s)
      \<and> segs_ok (\<not> b) ss)"

fun enc :: "key_elem \<Rightarrow> bool \<times> int \<times> string" where
  "enc (KInt n) = (False, n, [])"
| "enc (KStr s) = (True, 0, s)"

definition nkey :: "string \<Rightarrow> (bool \<times> int \<times> string) list" where
  "nkey s = (case natural_key s of Inr k \<Rightarrow> map enc k | Inl e \<Rightarrow> [])"

definition has_key :: "string \<Rightarrow> bool" where
  "has_key s = (case natural_key s of Inr k \<Rightarrow> True | Inl e \<Rightarrow> False)"

subsection \<open>Example inputs\<close>

text \<open>
  A document with the three required fields, a package directory, and collaborators over
  models that are numbers: the constructor answers with the number of fields it is given,
  the resolver knows no tag, and one local checkpoint exists.
\<close>

definition ex_cfg :: json where
  "ex_cfg = JObject [(''embed_dim'', JInt 512), (''vision_cfg'', JObject []), (''text_cfg'', JObject [])]"

definition ex_pkg :: path where
  "ex_pkg = [''open_clip'']"

definition cpu :: device where
  "cpu = \<lparr>dev_type = ''cpu'', dev_index = None\<rparr>"

definition ex_env :: "nat env" where
  "ex_env =
     \<lparr>load_openai_model = (\<lambda>n d j. Inr 7),
      model_float = (\<lambda>m. Inr m),
      CLIP = (\<lambda>kvs. Inr (length kvs)),
      get_pretrained_url = (\<lambda>n p. []),
      download_pretrained = (\<lambda>u. Inr (str ''/cache/weights.pt'')),
      os_path_exists = (\<lambda>p. p = str ''/data/rn50.pt''),
      torch_load = (\<lambda>p. Inr (Dict [(''logit_scale'', Tensor 0)])),
      model_load_state_dict = (\<lambda>m sd. Inr m),
      model_to = (\<lambda>m d. Inr m),
      convert_weights_to_fp16 = (\<lambda>m. Inr m),
      torch_jit_script = (\<lambda>m. Inr m)\<rparr>"

definition ex_store :: store_state where
  "ex_store = \<lparr>config_refs = [(''RN50'', 0)], objects = (\<lambda>a. JNull)(0 := ex_cfg), next_ref = 1\<rparr>"


definition ex_fs_unparsable :: fs where
  "ex_fs_unparsable =
     map_of [([''open_clip'', ''model_configs''], Dir [''notes.json'']),
             ([''open_clip'', ''model_configs'', ''notes.json''], File NotJson)]"

definition ex_fs :: fs where
  "ex_fs =
     map_of [([''open_clip'', ''model_configs''],
                Dir [''ViT-B-32.json'', ''draft.json'', ''ViT-B-16.json'', ''README.md'']),
             ([''open_clip'', ''model_configs'', ''ViT-B-32.json''], File (Document ex_cfg)),
             ([''open_clip'', ''model_configs'', ''draft.json''],
                File (Document (JObject [(''embed_dim'', JInt 512)]))),
             ([''open_clip'', ''model_configs'', ''ViT-B-16.json''], File (Document ex_cfg)),
             ([''open_clip'', ''model_configs'', ''README.md''], File NotJson),
             ([''extra''], Dir [''model2.json'']),
             ([''extra'', ''model2.json''], File (Document ex_cfg))]"

definition ex_fs_removed :: fs where
  "ex_fs_removed = map_of [([''open_clip'', ''model_configs''], Dir [])]"

section \<open>Properties\<close>

subsection \<open>Natural keys and sorting\<close>

declare re_split.simps [simp del]

lemma enc_inj: "enc x = enc y \<longleftrightarrow> x = y"
  by (cases x; cases y) auto

lemma elem_lt_enc: "is_str x = is_str y \<Longrightarrow> elem_lt x y = Inr (enc x < enc y)"
  by (cases x; cases y) auto

lemma key_lt_enc:
  "shaped b k1 \<Longrightarrow> shaped b k2 \<Longrightarrow> key_lt k1 k2 = Inr (map enc k1 < map enc k2)"
proof (induction k1 k2 arbitrary: b rule: key_lt.induct)
  case (4 x xs y ys)
  then have s: "is_str x = is_str y" and t: "shaped (\<not> b) xs" "shaped (\<not> b) ys" by auto
  show ?case
  proof (cases "x = y")
    case True
    with 4 t show ?thesis by simp
  next
    case False
    then have "enc x \<noteq> enc y" by (simp add: enc_inj)
    with False elem_lt_enc [OF s] show ?thesis by simp
  qed
qed simp_all

lemma segs_ok_re_split: "segs_ok True (re_split s)"
proof (induction s rule: re_split.induct)
  case (1 s)
  let ?t = "takeWhile (\<lambda>c. \<not> re_digit c) s"
  let ?r = "dropWhile (\<lambda>c. \<not> re_digit c) s"
  have t: "list_all (\<lambda>c. \<not> re_digit c) ?t"
    by (auto simp: list_all_iff dest: set_takeWhileD)
  show ?case
  proof (cases "?r = []")
    case True
    then show ?thesis using t by (subst re_split.simps) (simp add: Let_def)
  next
    case False
    then have "\<not> \<not> re_digit (hd ?r)" using hd_dropWhile [of "\<lambda>c. \<not> re_digit c" s] by simp
    with False have ne: "takeWhile re_digit ?r \<noteq> []" by (cases ?r) auto
    have d: "list_all re_digit (takeWhile re_digit ?r)"
      by (auto simp: list_all_iff dest: set_takeWhileD)
    from 1 [OF refl refl False] have "segs_ok True (re_split (dropWhile re_digit ?r))" .
    with False t ne d show ?thesis by (subst re_split.simps) (simp add: Let_def)
  qed
qed

lemma key_elem_of_text:
  "list_all (\<lambda>c. \<not> re_digit c) s \<Longrightarrow> key_elem_of s = Inr k \<Longrightarrow> is_str k"
  by (cases s) (auto simp: key_elem_of_def py_int_def split: if_splits)

lemma key_elem_of_digits:
  "s \<noteq> [] \<Longrightarrow> list_all re_digit s \<Longrightarrow> key_elem_of s = Inr k \<Longrightarrow> \<not> is_str k"
  by (auto simp: key_elem_of_def py_int_def isdigit_def isdigit_char_def list_all_iff
      split: if_splits)

lemma shaped_map_err:
  "segs_ok b segs \<Longrightarrow> map_err key_elem_of segs = Inr k \<Longrightarrow> shaped b k"
proof (induction segs arbitrary: b k)
  case Nil
  then show ?case by auto
next
  case (Cons s ss)
  from Cons.prems(2) obtain x xs where x: "key_elem_of s = Inr x"
    and xs: "map_err key_elem_of ss = Inr xs" and k: "k = x # xs"
    by (auto split: sum.splits)
  from Cons.prems(1) have "segs_ok (\<not> b) ss" by simp
  from Cons.IH [OF this xs] have "shaped (\<not> b) xs" .
  moreover have "is_str x = b"
    using Cons.prems(1) x key_elem_of_text [of s x] key_elem_of_digits [of s x]
    by (cases b) auto
  ultimately show ?case using k by simp
qed

lemma natural_key_shaped: "natural_key s = Inr k \<Longrightarrow> shaped True k"
  unfolding natural_key_def using shaped_map_err [OF segs_ok_re_split] .

lemma key_elem_of_error: "key_elem_of s = Inl e \<Longrightarrow> e = ValueError"
  by (auto simp: key_elem_of_def py_int_def split: if_splits)

lemma map_err_error:
  "(\<And>x e. f x = Inl e \<Longrightarrow> e = err) \<Longrightarrow> map_err f xs = Inl e \<Longrightarrow> e = err"
  by (induction xs arbitrary: e) (auto split: sum.splits)

lemma natural_key_error: "natural_key s = Inl e \<Longrightarrow> e = ValueError"
  unfolding natural_key_def using map_err_error [of key_elem_of ValueError] key_elem_of_error
  by blast

lemma natural_key_cases:
  "natural_key s = (if has_key s then natural_key s else Inl ValueError)"
  by (auto simp: has_key_def dest: natural_key_error split: sum.splits)


lemma insort_py_eq:
  "shaped True (fst x) \<Longrightarrow> list_all (\<lambda>y. shaped True (fst y)) ys \<Longrightarrow>
   insort_py x ys = Inr (insort_key (\<lambda>p. map enc (fst p)) x ys)"
proof (induction ys)
  case Nil
  then show ?case by simp
next
  case (Cons y ys)
  then have k: "key_lt (fst y) (fst x) = Inr (map enc (fst y) < map enc (fst x))"
    using key_lt_enc [of True "fst y" "fst x"] by simp
  from Cons have ih: "insort_py x ys = Inr (insort_key (\<lambda>p. map enc (fst p)) x ys)" by simp
  show ?case
  proof (cases "map enc (fst y) < map enc (fst x)")
    case True
    then have "\<not> map enc (fst x) \<le> map enc (fst y)" by (simp add: not_le)
    with True k ih show ?thesis by simp
  next
    case False
    then have "map enc (fst x) \<le> map enc (fst y)" by (simp add: not_less)
    with False k ih show ?thesis by simp
  qed
qed

lemma list_all_insort_key: "list_all P (insort_key f x ys) = (P x \<and> list_all P ys)"
  by (auto simp: list_all_iff set_insort_key)

lemma sort_py_eq:
  "list_all (\<lambda>y. shaped True (fst y)) xs \<Longrightarrow>
   sort_py xs = Inr (sort_key (\<lambda>p. map enc (fst p)) xs)"
proof (induction xs)
  case Nil
  then show ?case by simp
next
  case (Cons x xs)
  then have ih: "sort_py xs = Inr (sort_key (\<lambda>p. map enc (fst p)) xs)" by simp
  have "list_all (\<lambda>y. shaped True (fst y)) (sort_key (\<lambda>p. map enc (fst p)) xs)"
    using Cons.prems by (simp add: list_all_iff)
  with Cons.prems ih show ?case by (simp add: insort_py_eq)
qed

lemma insort_key_decorate:
  "insort_key (\<lambda>p. g (fst p)) (h x, x) (map (\<lambda>x. (h x, x)) ys)
     = map (\<lambda>x. (h x, x)) (insort_key (\<lambda>x. g (h x)) x ys)"
  by (induction ys) auto

lemma sort_key_decorate:
  "sort_key (\<lambda>p. g (fst p)) (map (\<lambda>x. (h x, x)) xs)
     = map (\<lambda>x. (h x, x)) (sort_key (\<lambda>x. g (h x)) xs)"
  by (induction xs) (auto simp: insort_key_decorate)

lemma map_err_decorate_ok:
  "list_all (\<lambda>x. has_key (name x)) xs \<Longrightarrow>
   map_err (\<lambda>x. map_sum id (\<lambda>k. (k, x)) (natural_key (name x))) xs
     = Inr (map (\<lambda>x. (projr (natural_key (name x)), x)) xs)"
  by (induction xs) (auto simp: has_key_def split: sum.splits)

lemma map_err_decorate_fail:
  "\<not> list_all (\<lambda>x. has_key (name x)) xs \<Longrightarrow>
   map_err (\<lambda>x. map_sum id (\<lambda>k. (k, x)) (natural_key (name x))) xs = Inl ValueError"
  by (induction xs) (auto simp: has_key_def dest: natural_key_error split: sum.splits)

lemma sort_key_cong_set:
  "(\<And>x. x \<in> set xs \<Longrightarrow> f x = g x) \<Longrightarrow> sort_key f xs = sort_key g xs"
proof (induction xs)
  case Nil
  then show ?case by simp
next
  case (Cons x xs)
  then have ih: "sort_key f xs = sort_key g xs" by simp
  have "insort_key f x ys = insort_key g x ys" if "set ys \<subseteq> set (x # xs)" for ys
    using that Cons.prems by (induction ys) auto
  from this [of "sort_key g xs"] ih show ?case by auto
qed

lemma sorted_natural_eq:
  "sorted_natural name xs =
     (if list_all (\<lambda>x. has_key (name x)) xs
      then Inr (sort_key (\<lambda>x. nkey (name x)) xs) else Inl ValueError)"
proof (cases "list_all (\<lambda>x. has_key (name x)) xs")
  case False
  then show ?thesis by (simp add: sorted_natural_def map_err_decorate_fail)
next
  case True
  let ?h = "\<lambda>x. projr (natural_key (name x))"
  have "shaped True (?h x)" if "x \<in> set xs" for x
  proof -
    from that True have "has_key (name x)" by (simp add: list_all_iff)
    then obtain k where "natural_key (name x) = Inr k"
      by (auto simp: has_key_def split: sum.splits)
    then show ?thesis using natural_key_shaped [of "name x" k] by simp
  qed
  then have sh: "list_all (\<lambda>y. shaped True (fst y)) (map (\<lambda>x. (?h x, x)) xs)"
    by (simp add: list_all_iff)
  have "sort_key (\<lambda>x. map enc (?h x)) xs = sort_key (\<lambda>x. nkey (name x)) xs"
    using True
    by (intro sort_key_cong_set) (auto simp: list_all_iff has_key_def nkey_def split: sum.splits)
  then show ?thesis
    using True
    by (simp add: sorted_natural_def map_err_decorate_ok sort_py_eq [OF sh]
        sort_key_decorate [of "map enc" ?h] comp_def)
qed

lemma natural_le_nkey:
  "has_key a \<Longrightarrow> has_key b \<Longrightarrow> natural_le a b = (nkey a \<le> nkey b)"
proof -
  assume "has_key a" and "has_key b"
  then obtain ka kb where k: "natural_key a = Inr ka" "natural_key b = Inr kb"
    by (auto simp: has_key_def split: sum.splits)
  then have "key_lt kb ka = Inr (map enc kb < map enc ka)"
    using key_lt_enc [of True kb ka] natural_key_shaped by simp
  with k show ?thesis by (simp add: natural_le_def nkey_def not_less)
qed

lemma sorted_wrt_natural_le:
  "list_all has_key xs \<Longrightarrow> sorted_wrt natural_le xs = sorted (map nkey xs)"
proof (induction xs)
  case Nil
  then show ?case by simp
next
  case (Cons x xs)
  then show ?case by (auto simp: list_all_iff natural_le_nkey)
qed

subsection \<open>Lowercasing\<close>


lemma delta_of_latin:
  "c < 256 \<Longrightarrow> delta_of c lower_runs =
     (if 65 \<le> c \<and> c \<le> 90 \<or> 192 \<le> c \<and> c \<le> 214 \<or> 216 \<le> c \<and> c \<le> 222 then 32 else 0)"
  by (auto simp add: lower_runs_def)

lemma of_char_less_256: "(of_char c :: nat) < 256"
proof -
  have "(of_char c :: nat) = of_char c mod 256" by simp
  then show ?thesis by (metis mod_less_divisor zero_less_numeral)
qed

lemma tolower_full_latin: "tolower_full (of_char c) = [of_char (lower_char c)]"
proof -
  let ?n = "of_char c :: nat"
  have n: "?n < 256" by (rule of_char_less_256)
  then have n304: "?n \<noteq> 304" by linarith
  show ?thesis
  proof (cases "is_upper c")
    case True
    then have u: "65 \<le> ?n \<and> ?n \<le> 90 \<or> 192 \<le> ?n \<and> ?n \<le> 214 \<or> 216 \<le> ?n \<and> ?n \<le> 222"
      by (auto simp: is_upper_def Let_def)
    then have "?n + 32 < 256" by auto
    then have "(of_char (char_of (?n + 32)) :: nat) = ?n + 32" by simp
    with True u n n304 show ?thesis
      by (simp add: tolower_full_def delta_of_latin lower_char_def nat_add_distrib)
  next
    case False
    then have u: "\<not> (65 \<le> ?n \<and> ?n \<le> 90 \<or> 192 \<le> ?n \<and> ?n \<le> 214 \<or> 216 \<le> ?n \<and> ?n \<le> 222)"
      by (auto simp: is_upper_def Let_def)
    with False n n304 show ?thesis
      by (auto simp: tolower_full_def delta_of_latin lower_char_def)
  qed
qed

lemma lower_from_str: "lower_from b (str s) = str (lower s)"
proof (induction s arbitrary: b)
  case Nil
  then show ?case by (simp add: str_def lower_def)
next
  case (Cons c s)
  have "(of_char c :: nat) \<noteq> 931" using of_char_less_256 [of c] by linarith
  with Cons.IH [of "of_char c # b"] show ?case
    by (simp add: str_def lower_def tolower_full_latin)
qed

lemma str_lower_str: "str_lower (str s) = str (lower s)"
  by (simp add: str_lower_def lower_from_str)

lemma str_inject: "str a = str b \<longleftrightarrow> a = b"
  by (simp add: str_def inj_on_def)




subsection \<open>Events and results of a sequence of calls\<close>

lemma fst_and_then:
  "fst (and_then m f) = fst m @ (case snd m of Inl e \<Rightarrow> [] | Inr x \<Rightarrow> fst (f x))"
  by (cases m) (auto simp: and_then_def split: sum.splits prod.splits)

lemma snd_and_then:
  "snd (and_then m f) = (case snd m of Inl e \<Rightarrow> Inl e | Inr x \<Rightarrow> snd (f x))"
  by (cases m) (auto simp: and_then_def split: sum.splits prod.splits)

lemmas eff_simps = fst_and_then snd_and_then call_def ret_def raise_err_def

subsection \<open>Dictionaries\<close>

lemma update_fresh: "k \<notin> fst ` set d \<Longrightarrow> AList.update k v d = d @ [(k, v)]"
  by (induction d) auto

lemma fold_update_distinct:
  "distinct (map fst (d @ xs)) \<Longrightarrow> fold (\<lambda>(k, v) d. AList.update k v d) xs d = d @ xs"
proof (induction xs arbitrary: d)
  case Nil
  then show ?case by simp
next
  case (Cons x xs)
  obtain k v where x: "x = (k, v)" by (cases x)
  from Cons.prems x have fresh: "k \<notin> fst ` set d" by auto
  from Cons.prems x have "distinct (map fst ((d @ [(k, v)]) @ xs))" by simp
  from Cons.IH [OF this] show ?case using x fresh by (simp add: update_fresh)
qed

lemma dict_of_items_distinct: "distinct (map fst xs) \<Longrightarrow> dict_of_items xs = xs"
  using fold_update_distinct [of "[]" xs] by (simp add: dict_of_items_def)

lemma fold_update_nonempty:
  "d \<noteq> [] \<or> xs \<noteq> [] \<Longrightarrow> fold (\<lambda>(k, v) d. AList.update k v d) xs d \<noteq> []"
  by (induction xs arbitrary: d) (auto split: prod.splits)

lemma dict_of_items_empty: "dict_of_items xs = [] \<longleftrightarrow> xs = []"
  using fold_update_nonempty [of "[]" xs] by (auto simp: dict_of_items_def)

subsection \<open>The checkpoint loader\<close>

lemma state_dict_of_nonempty: "state_dict_of c \<noteq> Inr (Dict [])"
  by (auto simp: state_dict_of_def Let_def dict_of_items_empty
      split: obj.splits list.splits option.splits)

text \<open>
  C9. When the mapping that \<^verbatim>\<open>load_state_dict\<close> is left with is empty, be it the
  checkpoint itself or the one under its \<^verbatim>\<open>state_dict\<close> key, the probe of the first
  key raises \<^verbatim>\<open>StopIteration\<close> and no prefix is handled; and no call of
  \<^verbatim>\<open>load_state_dict\<close> returns an empty mapping.
\<close>

theorem load_state_dict_never_empty:
  "(torch_load_fn p = Inr (Dict []) \<longrightarrow> load_state_dict torch_load_fn p = Inl StopIteration)
   \<and> (torch_load_fn p = Inr (Dict kvs) \<and> map_of kvs ''state_dict'' = Some (Dict [])
        \<longrightarrow> load_state_dict torch_load_fn p = Inl StopIteration)
   \<and> load_state_dict torch_load_fn p \<noteq> Inr (Dict [])"
proof (intro conjI impI)
  assume "torch_load_fn p = Inr (Dict [])"
  then show "load_state_dict torch_load_fn p = Inl StopIteration"
    by (simp add: load_state_dict_def state_dict_of_def)
next
  assume "torch_load_fn p = Inr (Dict kvs) \<and> map_of kvs ''state_dict'' = Some (Dict [])"
  then show "load_state_dict torch_load_fn p = Inl StopIteration"
    by (simp add: load_state_dict_def state_dict_of_def)
next
  show "load_state_dict torch_load_fn p \<noteq> Inr (Dict [])"
    by (simp add: load_state_dict_def state_dict_of_nonempty split: sum.splits)
qed

theorem load_state_dict_never_empty_witness:
  "load_state_dict (\<lambda>p. Inr (Dict [])) ''epoch_1.pt'' = Inl StopIteration
   \<and> load_state_dict (\<lambda>p. Inr (Dict [(''epoch'', Tensor 1), (''state_dict'', Dict [])]))
        ''epoch_1.pt'' = Inl StopIteration
   \<and> load_state_dict (\<lambda>p. Inr (Dict [])) ''epoch_1.pt'' \<noteq> Inr (Dict [])"
  using load_state_dict_never_empty [of "\<lambda>p. Inr (Dict [])" "''epoch_1.pt''" "[]"]
    load_state_dict_never_empty
      [of "\<lambda>p. Inr (Dict [(''epoch'', Tensor 1), (''state_dict'', Dict [])])" "''epoch_1.pt''"
          "[(''epoch'', Tensor 1), (''state_dict'', Dict [])]"]
  by simp

text \<open>
  C2 as stated fails in two ways. The test on line 55 is \<^verbatim>\<open>startswith('module')\<close>, six
  characters and no separator, while seven are cut: a checkpoint whose first key is
  \<^verbatim>\<open>modules.weight\<close> has neither the wrapper nor the prefix \<^verbatim>\<open>module.\<close>, and comes
  back with its key cut to \<^verbatim>\<open>.weight\<close>. And an empty mapping has neither, and is
  not returned: the probe of its first key raises.
\<close>

theorem load_state_dict_module_counterexample:
  "map_of [(''modules.weight'', Tensor 0)] ''state_dict'' = None
   \<and> \<not> startswith ''modules.weight'' ''module.''
   \<and> load_state_dict (\<lambda>p. Inr (Dict [(''modules.weight'', Tensor 0)])) ''w.pt''
       = Inr (Dict [(''.weight'', Tensor 0)])
   \<and> load_state_dict (\<lambda>p. Inr (Dict [(''modules.weight'', Tensor 0)])) ''w.pt''
       \<noteq> Inr (Dict [(''modules.weight'', Tensor 0)])
   \<and> load_state_dict (\<lambda>p. Inr (Dict [])) ''w.pt'' \<noteq> Inr (Dict [])"
  by (simp add: load_state_dict_def state_dict_of_def startswith_def dict_of_items_def)

lemma startswith_append: "startswith k (p @ q) \<Longrightarrow> startswith k p"
proof -
  assume "startswith k (p @ q)"
  then have "take (length (p @ q)) k = p @ q" by (simp only: startswith_def)
  then have "take (length p) (take (length (p @ q)) k) = take (length p) (p @ q)" by simp
  then have "take (length p) k = p" by (simp add: min_def)
  then show ?thesis by (simp only: startswith_def)
qed

lemma startswith_module: "startswith k ''module.'' \<Longrightarrow> startswith k ''module''"
  using startswith_append [of k "''module''" "''.''"] by simp

text \<open>
  C2, amended. For a checkpoint whose mapping (the one under \<^verbatim>\<open>state_dict\<close> when the
  checkpoint is a mapping with that key, the checkpoint itself otherwise) is not empty:
  when its first key starts with \<^verbatim>\<open>module.\<close>, the result is the dictionary of the
  items with the first seven characters of every key dropped, which is that list of
  items itself when the cut keys are distinct; when its first key does not start with
  \<^verbatim>\<open>module\<close>, the result is the mapping unchanged. (A first key that starts with
  \<^verbatim>\<open>module\<close> and not with \<^verbatim>\<open>module.\<close> is left out.)
\<close>

theorem load_state_dict_canonical:
  assumes "torch_load_fn p = Inr checkpoint"
  shows
    "(checkpoint = Dict kvs \<and> map_of kvs ''state_dict'' = Some (Dict ((k0, v0) # rest))
        \<and> \<not> startswith k0 ''module''
      \<longrightarrow> load_state_dict torch_load_fn p = Inr (Dict ((k0, v0) # rest)))
     \<and> (checkpoint = Dict kvs \<and> map_of kvs ''state_dict'' = Some (Dict ((k0, v0) # rest))
        \<and> startswith k0 ''module.''
      \<longrightarrow> load_state_dict torch_load_fn p
          = Inr (Dict (dict_of_items (map (\<lambda>(k, v). (drop 7 k, v)) ((k0, v0) # rest)))))
     \<and> (checkpoint = Dict ((k0, v0) # rest) \<and> map_of ((k0, v0) # rest) ''state_dict'' = None
        \<and> startswith k0 ''module.''
      \<longrightarrow> load_state_dict torch_load_fn p
          = Inr (Dict (dict_of_items (map (\<lambda>(k, v). (drop 7 k, v)) ((k0, v0) # rest)))))
     \<and> (checkpoint = Dict ((k0, v0) # rest) \<and> map_of ((k0, v0) # rest) ''state_dict'' = None
        \<and> \<not> startswith k0 ''module''
      \<longrightarrow> load_state_dict torch_load_fn p = Inr checkpoint)
     \<and> (distinct (map (\<lambda>(k, v). drop 7 k) ((k0, v0) # rest))
      \<longrightarrow> dict_of_items (map (\<lambda>(k, v). (drop 7 k, v)) ((k0, v0) # rest))
          = map (\<lambda>(k, v). (drop 7 k, v)) ((k0, v0) # rest))"
proof (intro conjI impI)
  assume "distinct (map (\<lambda>(k, v). drop 7 k) ((k0, v0) # rest))"
  then have "distinct (map fst (map (\<lambda>(k, v). (drop 7 k, v)) ((k0, v0) # rest)))"
    by (simp add: comp_def case_prod_unfold)
  then show "dict_of_items (map (\<lambda>(k, v). (drop 7 k, v)) ((k0, v0) # rest))
          = map (\<lambda>(k, v). (drop 7 k, v)) ((k0, v0) # rest)"
    by (rule dict_of_items_distinct)
qed (use assms startswith_module [of k0] in
      \<open>auto simp: load_state_dict_def state_dict_of_def split: if_splits\<close>)

theorem load_state_dict_canonical_witness:
  "load_state_dict (\<lambda>p. Inr (Dict [(''epoch'', Tensor 9), (''state_dict'', Dict [(''visual.proj'', Tensor 0), (''logit_scale'', Tensor 1)])])) ''w.pt''
     = Inr (Dict [(''visual.proj'', Tensor 0), (''logit_scale'', Tensor 1)])
   \<and> load_state_dict (\<lambda>p. Inr (Dict [(''state_dict'', Dict [(''module.visual.proj'', Tensor 0), (''module.logit_scale'', Tensor 1)])])) ''w.pt''
     = Inr (Dict [(''visual.proj'', Tensor 0), (''logit_scale'', Tensor 1)])
   \<and> load_state_dict (\<lambda>p. Inr (Dict [(''module.visual.proj'', Tensor 0), (''module.logit_scale'', Tensor 1)])) ''w.pt''
     = Inr (Dict [(''visual.proj'', Tensor 0), (''logit_scale'', Tensor 1)])
   \<and> load_state_dict (\<lambda>p. Inr (Dict [(''visual.proj'', Tensor 0), (''logit_scale'', Tensor 1)])) ''w.pt''
     = Inr (Dict [(''visual.proj'', Tensor 0), (''logit_scale'', Tensor 1)])"
proof -
  have a: "load_state_dict (\<lambda>p. Inr (Dict [(''epoch'', Tensor 9), (''state_dict'', Dict [(''visual.proj'', Tensor 0), (''logit_scale'', Tensor 1)])])) ''w.pt''
     = Inr (Dict [(''visual.proj'', Tensor 0), (''logit_scale'', Tensor 1)])"
    using load_state_dict_canonical [of "\<lambda>p. Inr (Dict [(''epoch'', Tensor 9), (''state_dict'', Dict [(''visual.proj'', Tensor 0), (''logit_scale'', Tensor 1)])])"
        "''w.pt''" _ "[(''epoch'', Tensor 9), (''state_dict'', Dict [(''visual.proj'', Tensor 0), (''logit_scale'', Tensor 1)])]"
        "''visual.proj''" "Tensor 0" "[(''logit_scale'', Tensor 1)]"]
    by (simp add: startswith_def)
  have b: "load_state_dict (\<lambda>p. Inr (Dict [(''state_dict'', Dict [(''module.visual.proj'', Tensor 0), (''module.logit_scale'', Tensor 1)])])) ''w.pt''
     = Inr (Dict [(''visual.proj'', Tensor 0), (''logit_scale'', Tensor 1)])"
    using load_state_dict_canonical [of "\<lambda>p. Inr (Dict [(''state_dict'', Dict [(''module.visual.proj'', Tensor 0), (''module.logit_scale'', Tensor 1)])])"
        "''w.pt''" _ "[(''state_dict'', Dict [(''module.visual.proj'', Tensor 0), (''module.logit_scale'', Tensor 1)])]"
        "''module.visual.proj''" "Tensor 0" "[(''module.logit_scale'', Tensor 1)]"]
    by (simp add: startswith_def)
  have c: "load_state_dict (\<lambda>p. Inr (Dict [(''module.visual.proj'', Tensor 0), (''module.logit_scale'', Tensor 1)])) ''w.pt''
     = Inr (Dict [(''visual.proj'', Tensor 0), (''logit_scale'', Tensor 1)])"
    using load_state_dict_canonical [of "\<lambda>p. Inr (Dict [(''module.visual.proj'', Tensor 0), (''module.logit_scale'', Tensor 1)])"
        "''w.pt''" _ "[]"
        "''module.visual.proj''" "Tensor 0" "[(''module.logit_scale'', Tensor 1)]"]
    by (simp add: startswith_def)
  have d: "load_state_dict (\<lambda>p. Inr (Dict [(''visual.proj'', Tensor 0), (''logit_scale'', Tensor 1)])) ''w.pt''
     = Inr (Dict [(''visual.proj'', Tensor 0), (''logit_scale'', Tensor 1)])"
    using load_state_dict_canonical [of "\<lambda>p. Inr (Dict [(''visual.proj'', Tensor 0), (''logit_scale'', Tensor 1)])"
        "''w.pt''" _ "[]"
        "''visual.proj''" "Tensor 0" "[(''logit_scale'', Tensor 1)]"]
    by (simp add: startswith_def)
  from a b c d show ?thesis by simp
qed

subsection \<open>The model builder\<close>







text \<open>
  C6. When the pretrained tag is \<^verbatim>\<open>openai\<close> in any letter case, \<^verbatim>\<open>create_model\<close>
  takes the original-provider branch: it leaves the registry and its objects as they
  are, its events and result are the same for any other registry, store, package
  directory, file system and activation flag, and its events are the call of
  \<^verbatim>\<open>load_openai_model\<close>, followed by \<^verbatim>\<open>model.float()\<close> or by nothing.
\<close>

theorem create_model_openai_branch:
  assumes "str_lower pretrained = str ''openai''"
    and "r = create_model env pkg fs st name pretrained precision dev jit fq"
  shows "fst r = st
    \<and> snd r = snd (create_model env pkg' fs' st' name pretrained precision dev jit fq')
    \<and> (fst (snd r) = [LoadOpenaiModel name dev jit]
        \<or> fst (snd r) = [LoadOpenaiModel name dev jit, ModelFloat])"
  using assms by (auto simp: create_model_def Let_def eff_simps split: sum.splits)

theorem create_model_openai_branch_witness:
  "str_lower (str ''OpenAI'') = str ''openai''
   \<and> fst (create_model ex_env ex_pkg ex_fs_unparsable ex_store ''RN50'' (str ''OpenAI'') ''fp32'' cpu False False) = ex_store
   \<and> snd (create_model ex_env ex_pkg ex_fs_unparsable ex_store ''RN50'' (str ''OpenAI'') ''fp32'' cpu False False)
       = snd (create_model ex_env [] (\<lambda>p. None) \<lparr>config_refs = [], objects = (\<lambda>a. JNull), next_ref = 0\<rparr> ''RN50'' (str ''OpenAI'') ''fp32'' cpu False True)
   \<and> fst (snd (create_model ex_env ex_pkg ex_fs_unparsable ex_store ''RN50'' (str ''OpenAI'') ''fp32'' cpu False False))
       = [LoadOpenaiModel ''RN50'' cpu False, ModelFloat]"
proof -
  have "lower ''OpenAI'' = ''openai''" by code_simp
  then have l: "str_lower (str ''OpenAI'') = str ''openai''" by (simp add: str_lower_str)
  have t: "fst (snd (create_model ex_env ex_pkg ex_fs_unparsable ex_store ''RN50'' (str ''OpenAI'') ''fp32'' cpu False False))
       = [LoadOpenaiModel ''RN50'' cpu False, ModelFloat]"
    by (simp add: create_model_def l eff_simps ex_env_def)
  from create_model_openai_branch [OF l refl, of ex_env ex_pkg ex_fs_unparsable ex_store "''RN50''" "''fp32''" cpu False False
       "[]" "\<lambda>p. None" "\<lparr>config_refs = [], objects = (\<lambda>a. JNull), next_ref = 0\<rparr>" True] l t
  show ?thesis by simp
qed

text \<open>
  C5 as stated fails when the listing made for the log message raises: with an
  unparsable \<^verbatim>\<open>notes.json\<close> in the default directory, an unknown name ends in the
  parser's error, not in the configuration-not-found error.
\<close>

theorem create_model_unknown_name_counterexample:
  "str_lower [] \<noteq> str ''openai''
   \<and> ''RN50'' \<notin> fst ` set (config_refs \<lparr>config_refs = [], objects = (\<lambda>a. JNull), next_ref = 0\<rparr>)
   \<and> snd (snd (create_model ex_env ex_pkg ex_fs_unparsable
        \<lparr>config_refs = [], objects = (\<lambda>a. JNull), next_ref = 0\<rparr> ''RN50'' [] ''fp32'' cpu False False))
      = Inl JSONDecodeError"
  by (simp add: create_model_def str_lower_def str_def list_models_def glob_json_def
      model_configs_dir_def ex_pkg_def ex_fs_unparsable_def endswith_def load_json_def raise_err_def)

text \<open>
  C5, amended. For a tag other than \<^verbatim>\<open>openai\<close> and a name absent from the registry,
  \<^verbatim>\<open>create_model\<close> raises, calls no collaborator (so no model is constructed) and
  leaves registry and store as they are; the exception is the configuration-not-found
  error when \<^verbatim>\<open>list_models()\<close> returns, and the exception of \<^verbatim>\<open>list_models()\<close>
  when that raises.
\<close>

theorem create_model_unknown_name:
  assumes "str_lower pretrained \<noteq> str ''openai''"
    and "name \<notin> fst ` set (config_refs st)"
    and "r = create_model env pkg fs st name pretrained precision dev jit fq"
  shows "fst r = st \<and> fst (snd r) = []
    \<and> (\<exists>e. snd (snd r) = Inl e)
    \<and> (list_models pkg fs = Inr names
        \<longrightarrow> snd (snd r) = Inl (RuntimeError (str (''Model config for '' @ name @ '' not found.''))))
    \<and> (list_models pkg fs = Inl e' \<longrightarrow> snd (snd r) = Inl e')"
proof -
  from assms(2) have "map_of (config_refs st) name = None"
    by (simp add: map_of_eq_None_iff)
  with assms(1,3) show ?thesis
    by (auto simp: create_model_def Let_def raise_err_def split: sum.splits)
qed

theorem create_model_unknown_name_witness:
  "str_lower (str ''laion400m_e32'') \<noteq> str ''openai''
   \<and> ''ViT-X'' \<notin> fst ` set (config_refs ex_store)
   \<and> list_models ex_pkg (\<lambda>p. None) = Inr []
   \<and> create_model ex_env ex_pkg (\<lambda>p. None) ex_store ''ViT-X'' (str ''laion400m_e32'') ''fp32'' cpu False False
       = (ex_store, [], Inl (RuntimeError (str ''Model config for ViT-X not found.'')))"
proof -
  have "lower ''laion400m_e32'' \<noteq> ''openai''" by code_simp
  then have l: "str_lower (str ''laion400m_e32'') \<noteq> str ''openai''"
    by (simp add: str_lower_str str_inject)
  have n: "''ViT-X'' \<notin> fst ` set (config_refs ex_store)" by (simp add: ex_store_def)
  have m: "list_models ex_pkg (\<lambda>p. None) = Inr []"
    by (simp add: list_models_def glob_json_def sorted_natural_def)
  from create_model_unknown_name [OF l n refl, of ex_env ex_pkg "\<lambda>p. None" "''fp32''" cpu False False "[]"] l n m
  show ?thesis by (simp add: prod_eq_iff)
qed








text \<open>
  C8. In the config-driven branch, provided the references of the registry are allocated
  objects, \<^verbatim>\<open>create_model\<close> leaves the registry and every object of it as they were:
  the only object written is the new one that \<^verbatim>\<open>deepcopy\<close> allocates. With the
  activation flag set and an entry that is a dictionary, that copy holds the entry with
  \<^verbatim>\<open>quick_gelu\<close> set, and it is what the constructor receives.
\<close>

theorem create_model_keeps_registry:
  assumes "str_lower pretrained \<noteq> str ''openai''"
    and "\<forall>a\<in>snd ` set (config_refs st). a < next_ref st"
    and "r = create_model env pkg fs st name pretrained precision dev jit fq"
  shows "config_refs (fst r) = config_refs st
    \<and> (map_of (config_refs st) n = Some a \<longrightarrow> objects (fst r) a = objects st a)
    \<and> (b \<noteq> next_ref st \<longrightarrow> objects (fst r) b = objects st b)
    \<and> (fq \<and> map_of (config_refs st) name = Some a \<and> objects st a = JObject kvs
        \<longrightarrow> objects (fst r) (next_ref st) = JObject (AList.update ''quick_gelu'' (JBool True) kvs)
            \<and> ConstructCLIP (AList.update ''quick_gelu'' (JBool True) kvs) \<in> set (fst (snd r)))"
proof -
  have 1: "config_refs (fst r) = config_refs st"
    using assms(1,3)
    by (auto simp: create_model_def Let_def deepcopy_def setitem_def
        split: option.splits prod.splits json.splits if_splits)
  have 3: "b \<noteq> next_ref st \<longrightarrow> objects (fst r) b = objects st b" for b
    using assms(1,3)
    by (auto simp: create_model_def Let_def deepcopy_def setitem_def
        split: option.splits prod.splits json.splits if_splits)
  have 2: "map_of (config_refs st) n = Some a \<longrightarrow> objects (fst r) a = objects st a"
  proof
    assume "map_of (config_refs st) n = Some a"
    then have "(n, a) \<in> set (config_refs st)" by (rule map_of_SomeD)
    then have "a \<in> snd ` set (config_refs st)" by force
    with assms(2) have "a \<noteq> next_ref st" by auto
    with 3 show "objects (fst r) a = objects st a" by simp
  qed
  have 4: "fq \<and> map_of (config_refs st) name = Some a \<and> objects st a = JObject kvs
        \<longrightarrow> objects (fst r) (next_ref st) = JObject (AList.update ''quick_gelu'' (JBool True) kvs)
            \<and> ConstructCLIP (AList.update ''quick_gelu'' (JBool True) kvs) \<in> set (fst (snd r))"
    using assms(1,3)
    by (auto simp: create_model_def Let_def deepcopy_def setitem_def construct_def eff_simps
        split: option.splits prod.splits json.splits if_splits sum.splits)
  from 1 2 3 4 show ?thesis by blast
qed

theorem create_model_keeps_registry_witness:
  "str_lower [] \<noteq> str ''openai''
   \<and> list_all (\<lambda>a. a < next_ref ex_store) (map snd (config_refs ex_store))
   \<and> map_of (config_refs ex_store) ''RN50'' = Some 0
   \<and> config_refs (fst (create_model ex_env ex_pkg (\<lambda>p. None) ex_store ''RN50'' [] ''fp32'' cpu False True))
       = config_refs ex_store
   \<and> objects (fst (create_model ex_env ex_pkg (\<lambda>p. None) ex_store ''RN50'' [] ''fp32'' cpu False True)) 0
       = ex_cfg
   \<and> objects (fst (create_model ex_env ex_pkg (\<lambda>p. None) ex_store ''RN50'' [] ''fp32'' cpu False True)) 1
       = JObject [(''embed_dim'', JInt 512), (''vision_cfg'', JObject []), (''text_cfg'', JObject []),
                  (''quick_gelu'', JBool True)]"
proof -
  have l: "str_lower [] \<noteq> str ''openai''" by (simp add: str_lower_def str_def)
  have w: "\<forall>a\<in>snd ` set (config_refs ex_store). a < next_ref ex_store" by (simp add: ex_store_def)
  have m: "map_of (config_refs ex_store) ''RN50'' = Some 0" by (simp add: ex_store_def)
  have o: "objects ex_store 0 = JObject [(''embed_dim'', JInt 512), (''vision_cfg'', JObject []), (''text_cfg'', JObject [])]"
    by (simp add: ex_store_def ex_cfg_def)
  have n: "next_ref ex_store = 1" by (simp add: ex_store_def)
  from create_model_keeps_registry [OF l w refl, where env = ex_env and pkg = ex_pkg and fs = "\<lambda>p. None"
      and name = "''RN50''" and precision = "''fp32''" and dev = cpu and jit = False and fq = True
      and n = "''RN50''" and a = 0 and b = 0
      and kvs = "[(''embed_dim'', JInt 512), (''vision_cfg'', JObject []), (''text_cfg'', JObject [])]"]
    l w m o n
  show ?thesis by (simp add: ex_cfg_def list_all_iff)
qed

subsection \<open>The registry\<close>

lemma all_in_object: "all_in names (JObject kvs) = Inr (set names \<subseteq> fst ` set kvs)"
  by (induction names) (auto split: bool.splits)

lemma scan_files_skip:
  "load_json fs cf = Inr doc \<Longrightarrow> all_in required_fields doc = Inr False \<Longrightarrow>
   scan_files fs (pre @ cf # post) cfgs = scan_files fs (pre @ post) cfgs"
  by (induction pre arbitrary: cfgs) (auto split: sum.splits)

lemma scan_files_raises:
  "cf \<in> set files \<Longrightarrow> raises fs cf \<Longrightarrow> snd (scan_files fs files cfgs) \<noteq> None"
  by (induction files arbitrary: cfgs) (auto simp: raises_def split: sum.splits)

lemma scan_files_first_error:
  "list_all (\<lambda>c. \<not> raises fs c) pre \<Longrightarrow> load_json fs cf = Inl e \<Longrightarrow>
   snd (scan_files fs (pre @ cf # post) cfgs) = Some e"
  by (induction pre arbitrary: cfgs) (auto simp: raises_def split: sum.splits)

lemma scan_files_ok:
  "list_all (\<lambda>cf. \<not> raises fs cf) files \<Longrightarrow>
   scan_files fs files cfgs
     = (fold (\<lambda>(k, v) d. AList.update k v d) (valid_entries fs files) cfgs, None)"
proof (induction files arbitrary: cfgs)
  case Nil
  then show ?case by (simp add: valid_entries_def)
next
  case (Cons cf cfs)
  then show ?case
    by (auto simp: valid_entries_def raises_def is_valid_def entry_of_def split: sum.splits)
qed

lemma scan_files_None:
  "snd (scan_files fs files cfgs) = None \<longleftrightarrow> list_all (\<lambda>cf. \<not> raises fs cf) files"
proof
  assume "snd (scan_files fs files cfgs) = None"
  then show "list_all (\<lambda>cf. \<not> raises fs cf) files"
    using scan_files_raises [of _ files fs cfgs] by (auto simp: list_all_iff)
next
  assume "list_all (\<lambda>cf. \<not> raises fs cf) files"
  then show "snd (scan_files fs files cfgs) = None" by (simp add: scan_files_ok)
qed

lemma list_files_ok:
  "list_files fs files models = Inr ms \<Longrightarrow>
   ms = models @ map path_stem (filter (is_valid fs) files)"
proof (induction files arbitrary: models)
  case Nil
  then show ?case by simp
next
  case (Cons cf cfs)
  from Cons.prems obtain doc ok where d: "load_json fs cf = Inr doc"
    and a: "all_in required_fields doc = Inr ok"
    and r: "list_files fs cfs (if ok then models @ [path_stem cf] else models) = Inr ms"
    by (auto split: sum.splits)
  from Cons.IH [OF r] d a show ?case by (cases ok) (simp_all add: is_valid_def)
qed

lemma list_files_returns:
  "list_all (\<lambda>cf. \<not> raises fs cf) files \<Longrightarrow> \<exists>ms. list_files fs files models = Inr ms"
  by (induction files arbitrary: models) (auto simp: raises_def split: sum.splits)

text \<open>
  C1 as stated fails for a candidate that cannot be parsed: \<^verbatim>\<open>json.load\<close> raises and
  nothing in \<^verbatim>\<open>_rescan_model_configs\<close> catches it, so the rescan ends in the parser's
  error.
\<close>

theorem rescan_unparsable_counterexample:
  "config_files_of ex_fs_unparsable (MODEL_CONFIG_PATHS (initial_state ex_pkg))
     = [[''open_clip'', ''model_configs'', ''notes.json'']]
   \<and> load_json ex_fs_unparsable [''open_clip'', ''model_configs'', ''notes.json''] = Inl JSONDecodeError
   \<and> snd (rescan_model_configs ex_fs_unparsable (initial_state ex_pkg)) = Some JSONDecodeError"
  by (simp add: rescan_model_configs_def scan_and_sort_def initial_state_def model_configs_dir_def
      ex_pkg_def ex_fs_unparsable_def is_file_def is_dir_def glob_json_def endswith_def load_json_def)

text \<open>
  C1, amended. A candidate that parses and for which the test of the required fields
  answers \<^verbatim>\<open>False\<close> is skipped in silence: the rescan is the one of the candidate
  list without it, so it raises nothing on its account and takes no entry from it. A
  document that is an object and lacks one of the three fields is such a candidate. A
  candidate that does not load makes the rescan raise: the error of its load, when no
  candidate before it raises, and in any case some error.
\<close>

theorem rescan_skips_invalid:
  assumes "config_files_of fs (MODEL_CONFIG_PATHS st) = pre @ cf # post"
  shows "(load_json fs cf = Inr doc \<and> all_in required_fields doc = Inr False
           \<longrightarrow> rescan_model_configs fs st = scan_and_sort fs (pre @ post) st)
     \<and> (f \<in> set required_fields \<and> f \<notin> fst ` set kvs
           \<longrightarrow> all_in required_fields (JObject kvs) = Inr False)
     \<and> (load_json fs cf = Inl e \<and> list_all (\<lambda>c. \<not> raises fs c) pre
           \<longrightarrow> snd (rescan_model_configs fs st) = Some e)
     \<and> (load_json fs cf = Inl e \<longrightarrow> snd (rescan_model_configs fs st) \<noteq> None)"
proof (intro conjI impI)
  assume "load_json fs cf = Inr doc \<and> all_in required_fields doc = Inr False"
  then show "rescan_model_configs fs st = scan_and_sort fs (pre @ post) st"
    using assms scan_files_skip [of fs cf doc pre post "MODEL_CONFIGS st"]
    by (simp add: rescan_model_configs_def scan_and_sort_def)
next
  assume "f \<in> set required_fields \<and> f \<notin> fst ` set kvs"
  then show "all_in required_fields (JObject kvs) = Inr False"
    by (auto simp: all_in_object)
next
  assume "load_json fs cf = Inl e \<and> list_all (\<lambda>c. \<not> raises fs c) pre"
  then have "snd (scan_files fs (pre @ cf # post) (MODEL_CONFIGS st)) = Some e"
    using scan_files_first_error [of fs pre cf e post "MODEL_CONFIGS st"] by simp
  then show "snd (rescan_model_configs fs st) = Some e"
    using assms
    by (auto simp: rescan_model_configs_def scan_and_sort_def split: prod.splits option.splits)
next
  assume l: "load_json fs cf = Inl e"
  then have "raises fs cf" by (simp add: raises_def)
  moreover have "cf \<in> set (pre @ cf # post)" by simp
  ultimately have "snd (scan_files fs (pre @ cf # post) (MODEL_CONFIGS st)) \<noteq> None"
    by (rule scan_files_raises [rotated])
  then show "snd (rescan_model_configs fs st) \<noteq> None"
    using assms
    by (auto simp: rescan_model_configs_def scan_and_sort_def split: prod.splits option.splits)
qed


theorem rescan_skips_invalid_witness:
  "config_files_of ex_fs (MODEL_CONFIG_PATHS (initial_state ex_pkg))
     = [[''open_clip'', ''model_configs'', ''ViT-B-32.json'']]
       @ [''open_clip'', ''model_configs'', ''draft.json'']
       # [[''open_clip'', ''model_configs'', ''ViT-B-16.json'']]
   \<and> load_json ex_fs [''open_clip'', ''model_configs'', ''draft.json'']
       = Inr (JObject [(''embed_dim'', JInt 512)])
   \<and> all_in required_fields (JObject [(''embed_dim'', JInt 512)]) = Inr False
   \<and> rescan_model_configs ex_fs (initial_state ex_pkg)
       = scan_and_sort ex_fs [[''open_clip'', ''model_configs'', ''ViT-B-32.json''],
                              [''open_clip'', ''model_configs'', ''ViT-B-16.json'']]
           (initial_state ex_pkg)
   \<and> MODEL_CONFIGS (fst (rescan_model_configs ex_fs (initial_state ex_pkg)))
       = [(''ViT-B-16'', ex_cfg), (''ViT-B-32'', ex_cfg)]
   \<and> snd (rescan_model_configs ex_fs (initial_state ex_pkg)) = None
   \<and> snd (rescan_model_configs ex_fs_unparsable (initial_state ex_pkg)) = Some JSONDecodeError"
proof -
  have c: "config_files_of ex_fs (MODEL_CONFIG_PATHS (initial_state ex_pkg))
     = [[''open_clip'', ''model_configs'', ''ViT-B-32.json'']]
       @ [''open_clip'', ''model_configs'', ''draft.json'']
       # [[''open_clip'', ''model_configs'', ''ViT-B-16.json'']]"
    by code_simp
  have l: "load_json ex_fs [''open_clip'', ''model_configs'', ''draft.json'']
       = Inr (JObject [(''embed_dim'', JInt 512)])"
    by code_simp
  have a: "all_in required_fields (JObject [(''embed_dim'', JInt 512)]) = Inr False"
    by code_simp
  have v: "MODEL_CONFIGS (fst (rescan_model_configs ex_fs (initial_state ex_pkg)))
       = [(''ViT-B-16'', ex_cfg), (''ViT-B-32'', ex_cfg)]"
    by code_simp
  have n: "snd (rescan_model_configs ex_fs (initial_state ex_pkg)) = None"
    by code_simp
  have c': "config_files_of ex_fs_unparsable (MODEL_CONFIG_PATHS (initial_state ex_pkg))
     = [] @ [''open_clip'', ''model_configs'', ''notes.json''] # []"
    by code_simp
  have l': "load_json ex_fs_unparsable [''open_clip'', ''model_configs'', ''notes.json'']
     = Inl JSONDecodeError"
    by code_simp
  from rescan_skips_invalid [OF c, where doc = "JObject [(''embed_dim'', JInt 512)]"] rescan_skips_invalid [OF c', where e = JSONDecodeError]
    c l a v n l'
  show ?thesis by simp
qed

text \<open>
  C4. The code at a source registered after the default directory: the valid
  \<^verbatim>\<open>model2.json\<close> of the directory \<^verbatim>\<open>extra\<close> is in the registry once
  \<^verbatim>\<open>add_model_config\<close> has run its rescan, and \<^verbatim>\<open>list_models\<close> does not list it.
  \<^verbatim>\<open>list_models\<close> repeats the loop of \<^verbatim>\<open>_rescan_model_configs\<close> over the default
  directory alone, where that function goes through \<^verbatim>\<open>_MODEL_CONFIG_PATHS\<close>; its
  docstring announces the available architectures, and \<^verbatim>\<open>create_model\<close> prints its
  result as the available models while it looks names up in \<^verbatim>\<open>_MODEL_CONFIGS\<close>.
\<close>

theorem list_models_misses_registered_source:
  "snd (add_model_config ex_fs [''extra''] (fst (rescan_model_configs ex_fs (initial_state ex_pkg))))
     = None
   \<and> map fst (MODEL_CONFIGS (fst (add_model_config ex_fs [''extra'']
        (fst (rescan_model_configs ex_fs (initial_state ex_pkg))))))
     = [''model2'', ''ViT-B-16'', ''ViT-B-32'']
   \<and> all_in required_fields ex_cfg = Inr True
   \<and> list_models ex_pkg ex_fs = Inr [''ViT-B-16'', ''ViT-B-32'']"
  by code_simp

text \<open>
  What \<^verbatim>\<open>list_models\<close> does return: exactly the stems of the valid candidates of
  the default directory, sorted by natural key; and it returns when no candidate of
  that directory raises and every valid stem has a natural key. Under the natural key
  \<^verbatim>\<open>ViT-B-16\<close> comes before \<^verbatim>\<open>ViT-B-32\<close> and \<^verbatim>\<open>model2\<close> before
  \<^verbatim>\<open>model10\<close>.
\<close>

theorem list_models_sorted_valid:
  assumes "files = glob_json fs (model_configs_dir pkg)"
  shows "(list_models pkg fs = Inr names
           \<longrightarrow> mset names = mset (map path_stem (filter (is_valid fs) files))
               \<and> sorted_wrt natural_le names)
     \<and> (list_all (\<lambda>cf. \<not> raises fs cf) files
          \<and> list_all has_key (map path_stem (filter (is_valid fs) files))
           \<longrightarrow> (\<exists>ns. list_models pkg fs = Inr ns))
     \<and> sorted_natural id [''ViT-B-32'', ''ViT-B-16''] = Inr [''ViT-B-16'', ''ViT-B-32'']
     \<and> sorted_natural id [''model10'', ''model2''] = Inr [''model2'', ''model10'']"
proof (intro conjI impI)
  assume r: "list_models pkg fs = Inr names"
  then obtain ms where ms: "list_files fs files [] = Inr ms"
    and s: "sorted_natural id ms = Inr names"
    using assms by (auto simp: list_models_def split: sum.splits)
  from list_files_ok [OF ms] have m: "ms = map path_stem (filter (is_valid fs) files)" by simp
  from s have k: "list_all has_key ms" and n: "names = sort_key nkey ms"
    by (auto simp: sorted_natural_eq split: if_splits)
  from n m show "mset names = mset (map path_stem (filter (is_valid fs) files))" by simp
  from k n have "list_all has_key names" by (simp add: list_all_iff)
  then show "sorted_wrt natural_le names" using n by (simp add: sorted_wrt_natural_le)
next
  assume a: "list_all (\<lambda>cf. \<not> raises fs cf) files
          \<and> list_all has_key (map path_stem (filter (is_valid fs) files))"
  then obtain ms where ms: "list_files fs files [] = Inr ms"
    using list_files_returns [of fs files "[]"] by auto
  from list_files_ok [OF ms] a have "list_all has_key ms" by simp
  with ms show "\<exists>ns. list_models pkg fs = Inr ns"
    using assms by (simp add: list_models_def sorted_natural_eq)
next
  show "sorted_natural id [''ViT-B-32'', ''ViT-B-16''] = Inr [''ViT-B-16'', ''ViT-B-32'']"
    by code_simp
next
  show "sorted_natural id [''model10'', ''model2''] = Inr [''model2'', ''model10'']"
    by code_simp
qed

theorem list_models_sorted_valid_witness:
  "glob_json ex_fs (model_configs_dir ex_pkg)
     = [[''open_clip'', ''model_configs'', ''ViT-B-32.json''],
        [''open_clip'', ''model_configs'', ''draft.json''],
        [''open_clip'', ''model_configs'', ''ViT-B-16.json'']]
   \<and> list_models ex_pkg ex_fs = Inr [''ViT-B-16'', ''ViT-B-32'']
   \<and> mset [''ViT-B-16'', ''ViT-B-32'']
       = mset (map path_stem (filter (is_valid ex_fs)
           [[''open_clip'', ''model_configs'', ''ViT-B-32.json''],
            [''open_clip'', ''model_configs'', ''draft.json''],
            [''open_clip'', ''model_configs'', ''ViT-B-16.json'']]))
   \<and> sorted_wrt natural_le [''ViT-B-16'', ''ViT-B-32'']"
proof -
  have g: "[[''open_clip'', ''model_configs'', ''ViT-B-32.json''],
        [''open_clip'', ''model_configs'', ''draft.json''],
        [''open_clip'', ''model_configs'', ''ViT-B-16.json'']]
      = glob_json ex_fs (model_configs_dir ex_pkg)"
    by code_simp
  have l: "list_models ex_pkg ex_fs = Inr [''ViT-B-16'', ''ViT-B-32'']"
    by code_simp
  from list_models_sorted_valid [OF g, where names = "[''ViT-B-16'', ''ViT-B-32'']"] g l
  show ?thesis by simp
qed

lemma map_of_fold_update:
  "map_of (fold (\<lambda>(k, v) d. AList.update k v d) es d) = map_of d ++ map_of (rev es)"
proof (induction es arbitrary: d)
  case Nil
  then show ?case by simp
next
  case (Cons e es)
  obtain k v where e: "e = (k, v)" by (cases e)
  have "map_of (fold (\<lambda>(k, v) d. AList.update k v d) (e # es) d)
      = map_of (AList.update k v d) ++ map_of (rev es)"
    using Cons.IH [of "AList.update k v d"] e by simp
  also have "\<dots> = (map_of d)(k \<mapsto> v) ++ map_of (rev es)"
    by (simp only: update_conv')
  also have "\<dots> = map_of d ++ ([k \<mapsto> v] ++ map_of (rev es))"
    by (rule ext) (simp add: map_add_def split: option.splits)
  also have "[k \<mapsto> v] ++ map_of (rev es) = map_of (rev (e # es))"
    using e by simp
  finally show ?case .
qed

lemma distinct_fold_update:
  "distinct (map fst d) \<Longrightarrow> distinct (map fst (fold (\<lambda>(k, v) d. AList.update k v d) es d))"
  by (induction es arbitrary: d) (auto simp: distinct_update)

lemma keys_fold_update:
  "set (map fst es) \<subseteq> set (map fst d) \<Longrightarrow>
   map fst (fold (\<lambda>(k, v) d. AList.update k v d) es d) = map fst d"
proof (induction es arbitrary: d)
  case Nil
  then show ?case by simp
next
  case (Cons e es)
  obtain k v where e: "e = (k, v)" by (cases e)
  with Cons.prems have k: "k \<in> set (map fst d)" by simp
  then have u: "map fst (AList.update k v d) = map fst d" by (simp add: update_keys)
  with Cons.prems have "set (map fst es) \<subseteq> set (map fst (AList.update k v d))" by simp
  from Cons.IH [OF this] u e show ?case by simp
qed

lemma dom_fold_update:
  "fst ` set (fold (\<lambda>(k, v) d. AList.update k v d) es d) = fst ` set d \<union> fst ` set es"
proof (induction es arbitrary: d)
  case Nil
  then show ?case by simp
next
  case (Cons e es)
  obtain k v where e: "e = (k, v)" by (cases e)
  from Cons.IH [of "AList.update k v d"] e show ?case by (auto simp: dom_update)
qed

lemma alist_rebuild:
  "distinct (map fst a) \<Longrightarrow> map (\<lambda>k. (k, the (map_of a k))) (map fst a) = a"
proof (induction a)
  case Nil
  then show ?case by simp
next
  case (Cons x a)
  obtain k v where x: "x = (k, v)" by (cases x)
  from Cons.prems x have nk: "k \<notin> fst ` set a" and d: "distinct (map fst a)" by auto
  have "map (\<lambda>k'. (k', the (map_of (x # a) k'))) (map fst a)
      = map (\<lambda>k'. (k', the (map_of a k'))) (map fst a)"
    using nk x by (intro map_cong) auto
  with Cons.IH [OF d] x show ?case by simp
qed

lemma alist_eqI:
  assumes "map fst a = map fst b" and "map_of a = map_of b" and "distinct (map fst a)"
  shows "a = b"
proof -
  from assms(1,3) have "distinct (map fst b)" by simp
  from alist_rebuild [OF this] alist_rebuild [OF assms(3)] assms(1,2) show ?thesis by simp
qed

lemma distinct_keys_sort_key:
  "distinct (map fst (sort_key f xs)) = distinct (map fst xs)"
proof -
  have "mset (map fst (sort_key f xs)) = mset (map fst xs)" by simp
  then show ?thesis by (rule mset_eq_imp_distinct_iff)
qed

lemma map_of_sort_key:
  "distinct (map fst xs) \<Longrightarrow> map_of (sort_key f xs) = map_of xs"
  by (subst map_of_inject_set) (simp_all add: distinct_keys_sort_key)

lemma scan_and_sort_ok:
  assumes "distinct (map fst (MODEL_CONFIGS st))"
    and "scan_and_sort fs files st = (st', None)"
  shows "list_all (\<lambda>cf. \<not> raises fs cf) files"
    and "list_all (\<lambda>p. has_key (fst p))
           (fold (\<lambda>(k, v) d. AList.update k v d) (valid_entries fs files) (MODEL_CONFIGS st))"
    and "st' = st\<lparr>MODEL_CONFIGS := sort_key (\<lambda>p. nkey (fst p))
           (fold (\<lambda>(k, v) d. AList.update k v d) (valid_entries fs files) (MODEL_CONFIGS st))\<rparr>"
proof -
  let ?c1 = "fold (\<lambda>(k, v) d. AList.update k v d) (valid_entries fs files) (MODEL_CONFIGS st)"
  from assms(2) have n: "snd (scan_files fs files (MODEL_CONFIGS st)) = None"
    by (auto simp: scan_and_sort_def split: prod.splits option.splits sum.splits)
  then show ok: "list_all (\<lambda>cf. \<not> raises fs cf) files" by (simp add: scan_files_None)
  from scan_files_ok [OF ok] have sc: "scan_files fs files (MODEL_CONFIGS st) = (?c1, None)" .
  from assms(2) sc show hk: "list_all (\<lambda>p. has_key (fst p)) ?c1"
    by (auto simp: scan_and_sort_def sorted_natural_eq split: if_splits)
  have "distinct (map fst (sort_key (\<lambda>p. nkey (fst p)) ?c1))"
    using assms(1) by (simp add: distinct_keys_sort_key distinct_fold_update)
  then have "dict_of_items (sort_key (\<lambda>p. nkey (fst p)) ?c1) = sort_key (\<lambda>p. nkey (fst p)) ?c1"
    by (rule dict_of_items_distinct)
  with assms(2) sc hk show "st' = st\<lparr>MODEL_CONFIGS := sort_key (\<lambda>p. nkey (fst p)) ?c1\<rparr>"
    by (auto simp: scan_and_sort_def sorted_natural_eq)
qed

lemma scan_and_sort_again:
  assumes "distinct (map fst (MODEL_CONFIGS st))"
    and "scan_and_sort fs files st = (st', None)"
  shows "scan_and_sort fs files st' = (st', None)"
proof -
  let ?es = "valid_entries fs files"
  let ?F = "fold (\<lambda>(k, v) d. AList.update k v d) ?es"
  let ?g = "\<lambda>p :: string \<times> json. nkey (fst p)"
  let ?c1 = "?F (MODEL_CONFIGS st)"
  let ?D = "sort_key ?g ?c1"
  note r = scan_and_sort_ok [OF assms]
  have c1d: "distinct (map fst ?c1)" using assms(1) by (rule distinct_fold_update)
  then have Dd: "distinct (map fst ?D)" by (simp add: distinct_keys_sort_key)
  have mD: "map_of ?D = map_of ?c1" using c1d by (rule map_of_sort_key)
  have "set (map fst ?es) \<subseteq> set (map fst ?D)"
    using dom_fold_update [of ?es "MODEL_CONFIGS st"] by auto
  then have keys: "map fst (?F ?D) = map fst ?D" by (rule keys_fold_update)
  have "map_of (?F ?D) = map_of ?D"
    unfolding map_of_fold_update mD
    by (rule ext) (simp add: map_add_def split: option.splits)
  with keys have FD: "?F ?D = ?D" using alist_eqI [of "?F ?D" ?D] Dd by simp
  have hk: "list_all (\<lambda>p. has_key (fst p)) ?D" using r(2) by (simp add: list_all_iff)
  have "sorted (map ?g ?D)" by (rule sorted_sort_key)
  then have sD: "sort_key ?g ?D = ?D" by (rule sort_key_id_if_sorted)
  have dD: "dict_of_items ?D = ?D" using Dd by (rule dict_of_items_distinct)
  have st': "MODEL_CONFIGS st' = ?D" using r(3) by simp
  have "scan_files fs files ?D = (?D, None)" using scan_files_ok [OF r(1), of ?D] FD by simp
  then show ?thesis using st' hk sD dD
    by (simp add: scan_and_sort_def sorted_natural_eq)
qed


text \<open>
  C3 as stated fails: \<^verbatim>\<open>_MODEL_CONFIGS\<close> is never emptied. After a first scan that
  found two valid files, a rescan over a default directory from which they are gone has
  no candidate at all, completes, and still holds both entries.
\<close>

theorem rescan_carries_over_counterexample:
  "config_files_of ex_fs_removed
     (MODEL_CONFIG_PATHS (fst (rescan_model_configs ex_fs (initial_state ex_pkg)))) = []
   \<and> snd (rescan_model_configs ex_fs_removed
        (fst (rescan_model_configs ex_fs (initial_state ex_pkg)))) = None
   \<and> map fst (MODEL_CONFIGS (fst (rescan_model_configs ex_fs_removed
        (fst (rescan_model_configs ex_fs (initial_state ex_pkg))))))
      = [''ViT-B-16'', ''ViT-B-32'']"
  by code_simp

text \<open>
  C3, amended. A rescan that completes, from a registry with distinct names, leaves the
  source list as it is and gives a registry that holds, for each name, the document of
  the last valid candidate of that name among the current sources, and otherwise the
  entry held before; its names are distinct and sorted by natural key; and a second
  rescan on the same file system completes with the identical registry.
\<close>

theorem rescan_additive_idempotent:
  assumes "distinct (map fst (MODEL_CONFIGS st))"
    and "rescan_model_configs fs st = (st', None)"
  shows "MODEL_CONFIG_PATHS st' = MODEL_CONFIG_PATHS st
    \<and> map_of (MODEL_CONFIGS st')
        = map_of (MODEL_CONFIGS st)
          ++ map_of (rev (valid_entries fs (config_files_of fs (MODEL_CONFIG_PATHS st))))
    \<and> distinct (map fst (MODEL_CONFIGS st'))
    \<and> sorted_wrt natural_le (map fst (MODEL_CONFIGS st'))
    \<and> rescan_model_configs fs st' = (st', None)"
proof -
  let ?files = "config_files_of fs (MODEL_CONFIG_PATHS st)"
  let ?c1 = "fold (\<lambda>(k, v) d. AList.update k v d) (valid_entries fs ?files) (MODEL_CONFIGS st)"
  let ?g = "\<lambda>p :: string \<times> json. nkey (fst p)"
  from assms(2) have s: "scan_and_sort fs ?files st = (st', None)"
    by (simp add: rescan_model_configs_def)
  note r = scan_and_sort_ok [OF assms(1) s]
  from r(3) have p: "MODEL_CONFIG_PATHS st' = MODEL_CONFIG_PATHS st"
    and c: "MODEL_CONFIGS st' = sort_key ?g ?c1" by simp_all
  have c1d: "distinct (map fst ?c1)" using assms(1) by (rule distinct_fold_update)
  have m: "map_of (MODEL_CONFIGS st')
      = map_of (MODEL_CONFIGS st) ++ map_of (rev (valid_entries fs ?files))"
    using c map_of_sort_key [OF c1d, of ?g] by (simp add: map_of_fold_update)
  have d: "distinct (map fst (MODEL_CONFIGS st'))"
    using c c1d by (simp add: distinct_keys_sort_key)
  have hk: "list_all has_key (map fst (MODEL_CONFIGS st'))"
    using r(2) c by (simp add: list_all_iff)
  have "sorted (map ?g (sort_key ?g ?c1))" by (rule sorted_sort_key)
  then have "sorted (map nkey (map fst (MODEL_CONFIGS st')))" using c by (simp add: comp_def)
  then have so: "sorted_wrt natural_le (map fst (MODEL_CONFIGS st'))"
    using hk by (simp add: sorted_wrt_natural_le)
  have "rescan_model_configs fs st' = (st', None)"
    using scan_and_sort_again [OF assms(1) s] p by (simp add: rescan_model_configs_def)
  with p m d so show ?thesis by simp
qed

theorem rescan_additive_idempotent_witness:
  "distinct (map fst (MODEL_CONFIGS (initial_state ex_pkg)))
   \<and> rescan_model_configs ex_fs (initial_state ex_pkg)
       = (\<lparr>MODEL_CONFIG_PATHS = [[''open_clip'', ''model_configs'']],
           MODEL_CONFIGS = [(''ViT-B-16'', ex_cfg), (''ViT-B-32'', ex_cfg)]\<rparr>, None)
   \<and> rescan_model_configs ex_fs
        \<lparr>MODEL_CONFIG_PATHS = [[''open_clip'', ''model_configs'']],
         MODEL_CONFIGS = [(''ViT-B-16'', ex_cfg), (''ViT-B-32'', ex_cfg)]\<rparr>
       = (\<lparr>MODEL_CONFIG_PATHS = [[''open_clip'', ''model_configs'']],
           MODEL_CONFIGS = [(''ViT-B-16'', ex_cfg), (''ViT-B-32'', ex_cfg)]\<rparr>, None)
   \<and> sorted_wrt natural_le [''ViT-B-16'', ''ViT-B-32'']"
proof -
  have d: "distinct (map fst (MODEL_CONFIGS (initial_state ex_pkg)))"
    by (simp add: initial_state_def)
  have r: "rescan_model_configs ex_fs (initial_state ex_pkg)
       = (\<lparr>MODEL_CONFIG_PATHS = [[''open_clip'', ''model_configs'']],
           MODEL_CONFIGS = [(''ViT-B-16'', ex_cfg), (''ViT-B-32'', ex_cfg)]\<rparr>, None)"
    by code_simp
  note t = rescan_additive_idempotent [OF d r]
  from t have a: "rescan_model_configs ex_fs
        \<lparr>MODEL_CONFIG_PATHS = [[''open_clip'', ''model_configs'']],
         MODEL_CONFIGS = [(''ViT-B-16'', ex_cfg), (''ViT-B-32'', ex_cfg)]\<rparr>
       = (\<lparr>MODEL_CONFIG_PATHS = [[''open_clip'', ''model_configs'']],
           MODEL_CONFIGS = [(''ViT-B-16'', ex_cfg), (''ViT-B-32'', ex_cfg)]\<rparr>, None)"
    by (elim conjE)
  from t have "sorted_wrt natural_le (map fst (MODEL_CONFIGS
        \<lparr>MODEL_CONFIG_PATHS = [[''open_clip'', ''model_configs'']],
         MODEL_CONFIGS = [(''ViT-B-16'', ex_cfg), (''ViT-B-32'', ex_cfg)]\<rparr>))"
    by (elim conjE)
  then have b: "sorted_wrt natural_le [''ViT-B-16'', ''ViT-B-32'']" by simp
  from d r a b show ?thesis by (intro conjI)
qed

end
